theory Spec2Isabelle
  imports Complex_Main
begin

section \<open>Credential refresh daemon (utils/check\_cookies.py)\<close>

text \<open>
  A shallow embedding of \<^verbatim>\<open>src/utils/check_cookies.py\<close>: the refresh pipeline
  (\<^verbatim>\<open>refresh_cookies\<close>), the enable/disable transitions, the per-account unit of work,
  the batch pass, the daily counter reset and the scheduler loop.

  The Python functions mutate an ORM object and a database session, call network
  clients, read the clock and write log lines. Here every function takes the in-memory
  account object and a state and returns them updated. The state holds the committed
  table, the history of every externally visible action (queries, commits, network and
  cache calls, clock reads, log lines) and the scheduler's globals.

  The collaborators imported by the file (\<^verbatim>\<open>utils.register\<close>,
  \<^verbatim>\<open>utils.redis_cache\<close>, \<^verbatim>\<open>utils.account_manager\<close>, the \<^verbatim>\<open>json\<close>,
  \<^verbatim>\<open>datetime\<close> and \<^verbatim>\<open>schedule\<close> libraries) are parameters: a record of
  functions. Each takes the history so far, so a collaborator may answer differently
  every time it is called, and may raise.
\<close>

subsection \<open>Python values\<close>

text \<open>
  The values that flow through the file are JSON-like: what \<^verbatim>\<open>json.loads\<close> returns,
  what the clients return, what is stored in the token columns. A float is kept by its
  value (both zeros are the value 0) or as one of the three special values.
\<close>

datatype pyfloat = Finite rat | NaN | Infinity bool

datatype json =
    JNull
  | JBool bool
  | JInt int
  | JFloat pyfloat
  | JStr string
  | JArr "json list"
  | JObj "(string \<times> json) list"

text \<open>Python's truth value of an object, as \<^verbatim>\<open>not x\<close> and \<^verbatim>\<open>if x\<close> test it.\<close>

fun truthy :: "json \<Rightarrow> bool" where
  "truthy JNull = False"
| "truthy (JBool b) = b"
| "truthy (JInt i) = (i \<noteq> 0)"
| "truthy (JFloat f) = (f \<noteq> Finite 0)"
| "truthy (JStr s) = (s \<noteq> [])"
| "truthy (JArr xs) = (xs \<noteq> [])"
| "truthy (JObj kvs) = (kvs \<noteq> [])"

text \<open>
  A call either returns or raises an exception (a subclass of \<^verbatim>\<open>Exception\<close>, kept by
  its message, which is all the handlers of the file use).
\<close>

datatype 'a outcome = Raised string | Returned 'a

text \<open>
  What \<^verbatim>\<open>json.loads\<close> does with a text: it returns the value, raises
  \<^verbatim>\<open>JSONDecodeError\<close> on a text that is not JSON, or raises another exception
  (\<^verbatim>\<open>RecursionError\<close> on deep nesting, a plain \<^verbatim>\<open>ValueError\<close> on an integer with
  too many digits), which is no \<^verbatim>\<open>JSONDecodeError\<close>.
\<close>

datatype loaded = Loaded json | JSONDecodeError | LoadRaised string

text \<open>
  \<^verbatim>\<open>d.get(key, default)\<close>: only a dict has the method; on any other value the
  attribute lookup raises \<^verbatim>\<open>AttributeError\<close>.
\<close>

fun py_get :: "json \<Rightarrow> string \<Rightarrow> json \<Rightarrow> json outcome" where
  "py_get (JObj kvs) k d = Returned (case map_of kvs k of None \<Rightarrow> d | Some v \<Rightarrow> v)"
| "py_get v k d = Raised ''AttributeError''"

subsection \<open>The account table\<close>

text \<open>
  \<^verbatim>\<open>models.tokens.Token\<close>, by the columns the file reads and writes. A nullable column
  is an option; a timestamp is a number of microseconds (the resolution of
  \<^verbatim>\<open>datetime\<close>). The column \<^verbatim>\<open>id\<close> is \<open>token_id\<close> here.
\<close>

type_synonym datetime = int

record Token =
  token_id :: nat
  account :: string
  enable :: int
  silent_cookies :: "string option"
  access_token :: json
  token :: json
  auth :: "string option"
  account_type :: json
  cookies_expires :: "datetime option"
  token_expires :: "datetime option"
  updated_at :: "datetime option"
  count :: int
  deleted_at :: "datetime option"

definition timedelta_days :: "int \<Rightarrow> int" where
  "timedelta_days d = d * 86400000000"

definition timedelta_minutes :: "int \<Rightarrow> int" where
  "timedelta_minutes m = m * 60000000"

definition CHECK_INTERVAL_SECONDS :: nat where
  "CHECK_INTERVAL_SECONDS = 600"

definition EXPIRY_WARNING_DAYS :: int where
  "EXPIRY_WARNING_DAYS = 7"

subsection \<open>History and state\<close>

datatype query = AllLive | EnabledLive | Expiring datetime datetime | ById nat

datatype level = INFO | WARNING | ERROR | EXCEPTION

text \<open>One constructor per logging call of the file, with the values its message shows.\<close>

datatype logmsg =
    FoundExpiring nat
  | ParseFailed string
  | NoCookies string
  | InvalidCookies string
  | RefreshRaised string string
  | AuthEmpty string
  | CacheRemoveFailed string
  | CacheUpdateFailed string
  | AccountNotFound nat
  | RefreshFailedDisabled string
  | UnitRaised nat string
  | BatchStart
  | NoAccounts
  | FoundAccounts nat
  | BatchDone nat
  | BatchRaised string
  | ResetStart
  | NothingToReset
  | ResetDone nat
  | ResetRaised string
  | AlreadyRunning
  | BatchSchedulerStarted nat
  | ResetSchedulerStarted
  | SchedulerRaised string
  | SchedulerStopped

datatype event =
    EvSessionOpen
  | EvSessionClose
  | EvQuery query
  | EvCommit "nat list"
  | EvNow datetime
  | EvRefresh json
  | EvSignin json
  | EvFetchAuth json json
  | EvProbe
  | EvCachePut nat json bool
  | EvCacheRemove nat bool
  | EvSubmit nat
  | EvRunPending
  | EvSleep nat
  | EvLog level logmsg

datatype trigger = EverySeconds nat | DailyAt string

datatype callee = CheckAndRefresh | ResetCounts

record state =
  store :: "Token list"
  trace :: "event list"
  running :: bool
  jobs :: "(trigger \<times> callee) list"

text \<open>
  The collaborators. \<open>json_loads\<close> is \<^verbatim>\<open>json.loads\<close>;
  \<open>json_dumps_raw\<close> is \<^verbatim>\<open>json.dumps\<close> with
  \<^verbatim>\<open>ensure_ascii=False\<close>. \<open>due_jobs\<close>, \<open>run_pending_fault\<close> and
  \<open>stop_requested\<close> are the scheduling library's choice of the jobs that are due,
  in the order in which it runs them (given the registered jobs), an exception raised
  by the library in the loop body, and whether another thread called
  \<^verbatim>\<open>stop_scheduler\<close> during a poll cycle.
\<close>

record world =
  refresh_silent_cookies :: "event list \<Rightarrow> json \<Rightarrow> (bool \<times> json \<times> json) outcome"
  signin_with_access_token :: "event list \<Rightarrow> json \<Rightarrow> json outcome"
  fetch_auth_info :: "event list \<Rightarrow> json \<Rightarrow> json \<Rightarrow> json outcome"
  test_redis_connection :: "event list \<Rightarrow> bool outcome"
  token_to_dict :: "Token \<Rightarrow> json outcome"
  cache_account :: "event list \<Rightarrow> nat \<Rightarrow> json \<Rightarrow> bool \<Rightarrow> unit outcome"
  remove_cached_account :: "event list \<Rightarrow> nat \<Rightarrow> bool \<Rightarrow> unit outcome"
  json_loads :: "string \<Rightarrow> loaded"
  json_dumps :: "json \<Rightarrow> string"
  json_dumps_raw :: "json \<Rightarrow> string"
  now :: "event list \<Rightarrow> datetime"
  due_jobs :: "event list \<Rightarrow> (trigger \<times> callee) list \<Rightarrow> (trigger \<times> callee) list"
  run_pending_fault :: "event list \<Rightarrow> string option"
  stop_requested :: "event list \<Rightarrow> bool"

definition emit :: "event \<Rightarrow> state \<Rightarrow> state" where
  "emit e s = s\<lparr>trace := trace s @ [e]\<rparr>"

definition logger :: "level \<Rightarrow> logmsg \<Rightarrow> state \<Rightarrow> state" where
  "logger l m s = emit (EvLog l m) s"

text \<open>\<^verbatim>\<open>datetime.now()\<close>: every call reads the clock again.\<close>

definition datetime_now :: "world \<Rightarrow> state \<Rightarrow> datetime \<times> state" where
  "datetime_now w s = (let t = now w (trace s) in (t, emit (EvNow t) s))"

text \<open>
  \<^verbatim>\<open>db.commit()\<close>: the objects of the session that were assigned to are written to
  their rows (the row with the object's primary key). The store itself is taken to be
  available: opening a session, a query and a commit do not raise.
\<close>

definition write_back :: "Token list \<Rightarrow> Token list \<Rightarrow> Token list" where
  "write_back objs rows =
     map (\<lambda>r. case find (\<lambda>obj. token_id obj = token_id r) objs of
                 None \<Rightarrow> r
               | Some obj \<Rightarrow> obj) rows"

definition commit :: "Token list \<Rightarrow> state \<Rightarrow> state" where
  "commit objs s =
     emit (EvCommit (map token_id objs)) (s\<lparr>store := write_back objs (store s)\<rparr>)"

subsection \<open>The refresh pipeline\<close>

text \<open>
  \<^verbatim>\<open>find_expiring_accounts\<close> (lines 39-55). A comparison with a NULL expiry is not
  true in SQL, so a row without an expiry is not selected.
\<close>

definition find_expiring_accounts :: "world \<Rightarrow> state \<Rightarrow> Token list \<times> state" where
  "find_expiring_accounts w s =
     (case datetime_now w s of (now_t, s1) \<Rightarrow>
        let expiry_date = now_t + timedelta_days EXPIRY_WARNING_DAYS;
            s2 = emit (EvQuery (Expiring now_t expiry_date)) s1;
            accounts = filter (\<lambda>r. enable r = 1 \<and> deleted_at r = None \<and>
                          (case cookies_expires r of None \<Rightarrow> False
                           | Some e \<Rightarrow> e \<le> expiry_date \<and> e \<ge> now_t)) (store s2)
        in (accounts, logger INFO (FoundExpiring (length accounts)) s2))"

text \<open>
  \<^verbatim>\<open>parse_cookies_to_dict\<close> (lines 57-68). The handler catches
  \<^verbatim>\<open>JSONDecodeError\<close> only; any other exception of \<^verbatim>\<open>json.loads\<close> leaves the
  function.
\<close>

definition parse_cookies_to_dict :: "world \<Rightarrow> string \<Rightarrow> state \<Rightarrow> json outcome \<times> state" where
  "parse_cookies_to_dict w cookies_str s =
     (if cookies_str = [] then (Returned (JObj []), s)
      else case json_loads w cookies_str of
             Loaded v \<Rightarrow> (Returned v, s)
           | JSONDecodeError \<Rightarrow>
               (Returned (JObj []), logger ERROR (ParseFailed (take 100 cookies_str)) s)
           | LoadRaised e \<Rightarrow> (Raised e, s))"

text \<open>
  Lines 98-100 of \<^verbatim>\<open>refresh_cookies\<close>: the sign-in that derives the session token.
  The result is the outcome of the statements (they return nothing), the object and
  the state.
\<close>

definition signin_step :: "world \<Rightarrow> Token \<Rightarrow> state \<Rightarrow> unit outcome \<times> Token \<times> state" where
  "signin_step w a s =
     (if truthy (access_token a) \<and> \<not> truthy (token a) then
        (case signin_with_access_token w (trace s) (access_token a) of
           Raised e \<Rightarrow> (Raised e, a, emit (EvSignin (access_token a)) s)
         | Returned auth0 \<Rightarrow>
             (case py_get auth0 ''token'' JNull of
                Raised e \<Rightarrow> (Raised e, a, emit (EvSignin (access_token a)) s)
              | Returned v \<Rightarrow> (Returned (), a\<lparr>token := v\<rparr>, emit (EvSignin (access_token a)) s)))
      else (Returned (), a, s))"

text \<open>Lines 102-111: the identity fetch, and the \<^verbatim>\<open>return True\<close> that follows it.\<close>

definition auth_step :: "world \<Rightarrow> Token \<Rightarrow> state \<Rightarrow> bool outcome \<times> Token \<times> state" where
  "auth_step w a s =
     (let s1 = emit (EvFetchAuth (token a) (access_token a)) s in
      case fetch_auth_info w (trace s) (token a) (access_token a) of
        Raised e \<Rightarrow> (Raised e, a, s1)
      | Returned auth_data \<Rightarrow>
          if \<not> truthy auth_data then (Returned True, a, logger ERROR (AuthEmpty (account a)) s1)
          else
            let a1 = a\<lparr>auth := Some (json_dumps_raw w auth_data)\<rparr> in
            (case py_get auth_data ''account_type'' JNull of
               Raised e \<Rightarrow> (Raised e, a1, s1)
             | Returned v \<Rightarrow> (Returned True, a1\<lparr>account_type := v\<rparr>, s1)))"

text \<open>
  Lines 89-96: the assignments of a successful refresh and their commit. The clock is
  read four times, once by each assignment of a timestamp.
\<close>

definition success_commit :: "world \<Rightarrow> Token \<Rightarrow> json \<Rightarrow> json \<Rightarrow> state \<Rightarrow> Token \<times> state" where
  "success_commit w a updated_cookies new_access_token s =
     (let a1 = a\<lparr>silent_cookies := Some (json_dumps w updated_cookies)\<rparr>;
          a2 = a1\<lparr>access_token := new_access_token\<rparr> in
      case datetime_now w s of (t1, s1) \<Rightarrow>
      let a3 = a2\<lparr>cookies_expires := Some (t1 + timedelta_days 30)\<rparr> in
      case datetime_now w s1 of (t2, s2) \<Rightarrow>
      let a4 = a3\<lparr>updated_at := Some t2\<rparr> in
      case datetime_now w s2 of (t3, s3) \<Rightarrow>
      let a5 = a4\<lparr>token_expires := Some (t3 + timedelta_minutes 15)\<rparr> in
      case datetime_now w s3 of (t4, s4) \<Rightarrow>
      let a6 = a5\<lparr>updated_at := Some t4\<rparr>;
          a7 = a6\<lparr>enable := 1\<rparr>
      in (a7, commit [a7] s4))"

text \<open>
  Lines 84-111: the body of the \<^verbatim>\<open>try\<close>. A call that does not return three values
  fails at the unpacking, which is \<open>Raised\<close> here.
\<close>

definition refresh_cookies_try ::
  "world \<Rightarrow> Token \<Rightarrow> json \<Rightarrow> state \<Rightarrow> bool outcome \<times> Token \<times> state" where
  "refresh_cookies_try w a cookies s =
     (let s1 = emit (EvRefresh cookies) s in
      case refresh_silent_cookies w (trace s) cookies of
        Raised e \<Rightarrow> (Raised e, a, s1)
      | Returned (success, updated_cookies, new_access_token) \<Rightarrow>
          if \<not> success \<or> \<not> truthy updated_cookies \<or> \<not> truthy new_access_token
          then (Returned False, a, s1)
          else
            (case success_commit w a updated_cookies new_access_token s1 of (a7, s6) \<Rightarrow>
               (case signin_step w a7 s6 of
                  (Raised e, a8, s7) \<Rightarrow> (Raised e, a8, s7)
                | (Returned u, a8, s7) \<Rightarrow> auth_step w a8 s7)))"

text \<open>
  \<^verbatim>\<open>refresh_cookies\<close> (lines 70-116): the two gates, then the \<^verbatim>\<open>try\<close> with its
  handler, which logs and falls through to \<^verbatim>\<open>return False\<close>. The parse (line 78)
  comes before the \<^verbatim>\<open>try\<close>, so an exception of it leaves the function.
\<close>

definition refresh_cookies :: "world \<Rightarrow> Token \<Rightarrow> state \<Rightarrow> bool outcome \<times> Token \<times> state" where
  "refresh_cookies w a s =
     (case silent_cookies a of
        None \<Rightarrow> (Returned False, a, logger ERROR (NoCookies (account a)) s)
      | Some cookies_str \<Rightarrow>
          if cookies_str = [] then (Returned False, a, logger ERROR (NoCookies (account a)) s)
          else
            (case parse_cookies_to_dict w cookies_str s of
               (Raised e, s1) \<Rightarrow> (Raised e, a, s1)
             | (Returned cookies, s1) \<Rightarrow>
                 if \<not> truthy cookies
                 then (Returned False, a, logger ERROR (InvalidCookies (account a)) s1)
                 else
                   (case refresh_cookies_try w a cookies s1 of
                      (Returned r, a1, s2) \<Rightarrow> (Returned r, a1, s2)
                    | (Raised e, a1, s2) \<Rightarrow>
                        (Returned False, a1,
                         logger EXCEPTION (RefreshRaised (account a1) e) s2))))"

subsection \<open>The enable/disable transitions\<close>

text \<open>Lines 123-126: the body of the \<^verbatim>\<open>try\<close> of \<^verbatim>\<open>disable_account\<close>.\<close>

definition cache_remove_try :: "world \<Rightarrow> Token \<Rightarrow> state \<Rightarrow> unit outcome \<times> state" where
  "cache_remove_try w a s =
     (let s1 = emit EvProbe s in
      case test_redis_connection w (trace s) of
        Raised e \<Rightarrow> (Raised e, s1)
      | Returned ok \<Rightarrow>
          if \<not> ok then (Returned (), s1)
          else
            let s2 = emit (EvCacheRemove (token_id a) False) s1 in
            (case remove_cached_account w (trace s1) (token_id a) False of
               Raised e \<Rightarrow> (Raised e, s2)
             | Returned u \<Rightarrow>
                 if account_type a = JStr ''paid'' then
                   (remove_cached_account w (trace s2) (token_id a) True,
                    emit (EvCacheRemove (token_id a) True) s2)
                 else (Returned (), s2)))"

text \<open>\<^verbatim>\<open>disable_account\<close> (lines 118-128).\<close>

definition disable_account :: "world \<Rightarrow> Token \<Rightarrow> state \<Rightarrow> Token \<times> state" where
  "disable_account w a s =
     (let a1 = a\<lparr>enable := 0\<rparr>;
          s1 = commit [a1] s in
      case cache_remove_try w a1 s1 of
        (Raised e, s2) \<Rightarrow> (a1, logger ERROR (CacheRemoveFailed e) s2)
      | (Returned u, s2) \<Rightarrow> (a1, s2))"

text \<open>
  Lines 135-139, the body of the \<^verbatim>\<open>try\<close> of \<^verbatim>\<open>enable_account\<close>; the same
  statements are lines 214-218 of \<^verbatim>\<open>reset_account_counts\<close>.
\<close>

definition cache_put_try :: "world \<Rightarrow> Token \<Rightarrow> state \<Rightarrow> unit outcome \<times> state" where
  "cache_put_try w a s =
     (let s1 = emit EvProbe s in
      case test_redis_connection w (trace s) of
        Raised e \<Rightarrow> (Raised e, s1)
      | Returned ok \<Rightarrow>
          if \<not> ok then (Returned (), s1)
          else
            (case token_to_dict w a of
               Raised e \<Rightarrow> (Raised e, s1)
             | Returned account_data \<Rightarrow>
                 let s2 = emit (EvCachePut (token_id a) account_data False) s1 in
                 (case cache_account w (trace s1) (token_id a) account_data False of
                    Raised e \<Rightarrow> (Raised e, s2)
                  | Returned u \<Rightarrow>
                      if account_type a = JStr ''paid'' then
                        (cache_account w (trace s2) (token_id a) account_data True,
                         emit (EvCachePut (token_id a) account_data True) s2)
                      else (Returned (), s2))))"

text \<open>\<^verbatim>\<open>enable_account\<close> (lines 130-141).\<close>

definition enable_account :: "world \<Rightarrow> Token \<Rightarrow> state \<Rightarrow> Token \<times> state" where
  "enable_account w a s =
     (let a1 = a\<lparr>enable := 1\<rparr>;
          s1 = commit [a1] s in
      case cache_put_try w a1 s1 of
        (Raised e, s2) \<Rightarrow> (a1, logger ERROR (CacheUpdateFailed e) s2)
      | (Returned u, s2) \<Rightarrow> (a1, s2))"

subsection \<open>The unit of work and the batch pass\<close>

text \<open>
  \<^verbatim>\<open>refresh_single_account\<close> (lines 143-166). An exception that leaves
  \<^verbatim>\<open>refresh_cookies\<close> reaches the handler of the unit (lines 162-163), which logs
  it; nothing is committed then, and closing the session drops what was assigned. The
  two transitions catch what the cache raises themselves. The \<^verbatim>\<open>finally\<close> closes the
  session on every path.
\<close>

definition refresh_single_account :: "world \<Rightarrow> nat \<Rightarrow> state \<Rightarrow> state" where
  "refresh_single_account w account_id s =
     (let s1 = emit (EvQuery (ById account_id)) (emit EvSessionOpen s) in
      case find (\<lambda>r. token_id r = account_id) (store s1) of
        None \<Rightarrow> emit EvSessionClose (logger ERROR (AccountNotFound account_id) s1)
      | Some a \<Rightarrow>
          (case refresh_cookies w a s1 of
             (Raised e, a1, s2) \<Rightarrow>
               emit EvSessionClose (logger EXCEPTION (UnitRaised account_id e) s2)
           | (Returned success, a1, s2) \<Rightarrow>
               if success then
                 (case enable_account w a1 s2 of (a2, s3) \<Rightarrow> emit EvSessionClose s3)
               else
                 (case disable_account w a1 s2 of (a2, s3) \<Rightarrow>
                    emit EvSessionClose (logger INFO (RefreshFailedDisabled (account a2)) s3))))"

text \<open>
  \<^verbatim>\<open>check_and_refresh_accounts\<close> (lines 168-193). The pool runs the submitted units
  concurrently; here they run one after the other in the order of submission, which is
  one of the pool's schedules. Leaving the \<^verbatim>\<open>with\<close> block waits for all of them.
\<close>

definition check_and_refresh_accounts :: "world \<Rightarrow> state \<Rightarrow> state" where
  "check_and_refresh_accounts w s =
     (let s1 = emit (EvQuery AllLive) (emit EvSessionOpen (logger INFO BatchStart s));
          accounts = filter (\<lambda>r. deleted_at r = None) (store s1) in
      if accounts = [] then emit EvSessionClose (logger INFO NoAccounts s1)
      else
        let s2 = logger INFO (FoundAccounts (length accounts)) s1;
            s3 = fold (\<lambda>a st. refresh_single_account w (token_id a) (emit (EvSubmit (token_id a)) st))
                   accounts s2
        in emit EvSessionClose (logger INFO (BatchDone (length accounts)) s3))"

subsection \<open>The daily reset\<close>

text \<open>
  Lines 213-220 of \<^verbatim>\<open>reset_account_counts\<close>: the \<^verbatim>\<open>try\<close> around the cache
  writes with its handler, which logs the exception.
\<close>

definition cache_put_handled :: "world \<Rightarrow> Token \<Rightarrow> state \<Rightarrow> state" where
  "cache_put_handled w a s =
     (case cache_put_try w a s of
        (Raised e, s1) \<Rightarrow> logger ERROR (CacheUpdateFailed e) s1
      | (Returned u, s1) \<Rightarrow> s1)"

text \<open>
  The \<^verbatim>\<open>for\<close> loop of \<^verbatim>\<open>reset_account_counts\<close> (lines 208-220): the number of
  accounts reset, the objects assigned to, and the state.
\<close>

fun reset_loop :: "world \<Rightarrow> Token list \<Rightarrow> nat \<Rightarrow> Token list \<Rightarrow> state \<Rightarrow> nat \<times> Token list \<times> state" where
  "reset_loop w [] n dirty s = (n, dirty, s)"
| "reset_loop w (a # accounts) n dirty s =
     (if count a > 0 then
        let a1 = a\<lparr>count := 0\<rparr>
        in reset_loop w accounts (n + 1) (dirty @ [a1]) (cache_put_handled w a1 s)
      else reset_loop w accounts n dirty s)"

text \<open>\<^verbatim>\<open>reset_account_counts\<close> (lines 195-229).\<close>

definition reset_account_counts :: "world \<Rightarrow> state \<Rightarrow> state" where
  "reset_account_counts w s =
     (let s1 = emit (EvQuery EnabledLive) (emit EvSessionOpen (logger INFO ResetStart s));
          accounts = filter (\<lambda>r. enable r = 1 \<and> deleted_at r = None) (store s1) in
      if accounts = [] then emit EvSessionClose (logger INFO NothingToReset s1)
      else
        (case reset_loop w accounts 0 [] s1 of (n, dirty, s2) \<Rightarrow>
           emit EvSessionClose (logger INFO (ResetDone n) (commit dirty s2))))"

subsection \<open>The scheduler\<close>

text \<open>\<^verbatim>\<open>stop_scheduler\<close> (lines 258-262).\<close>

definition stop_scheduler :: "state \<Rightarrow> state" where
  "stop_scheduler s = logger INFO SchedulerStopped (s\<lparr>running := False\<rparr>)"

definition run_job :: "world \<Rightarrow> trigger \<times> callee \<Rightarrow> state \<Rightarrow> state" where
  "run_job w j s =
     (case snd j of
        CheckAndRefresh \<Rightarrow> check_and_refresh_accounts w s
      | ResetCounts \<Rightarrow> reset_account_counts w s)"

text \<open>
  \<^verbatim>\<open>schedule.run_pending()\<close>: the library raises, or runs the registered jobs that
  are due, in the order the library gives them (it sorts them by their due time).
\<close>

definition run_pending :: "world \<Rightarrow> state \<Rightarrow> unit outcome \<times> state" where
  "run_pending w s =
     (let s1 = emit EvRunPending s in
      case run_pending_fault w (trace s) of
        Some e \<Rightarrow> (Raised e, s1)
      | None \<Rightarrow>
          (Returned (),
           fold (run_job w)
             (filter (\<lambda>j. j \<in> set (jobs s)) (due_jobs w (trace s) (jobs s))) s1))"

text \<open>
  The \<^verbatim>\<open>while _running\<close> loop (lines 249-251). It may run forever, so it takes fuel:
  \<open>None\<close> is a loop that is still running when the fuel is used up. Other threads
  reach the flag through \<^verbatim>\<open>stop_scheduler\<close> only; a call of theirs during a cycle is
  seen at the next test of the flag.
\<close>

fun scheduler_loop :: "world \<Rightarrow> nat \<Rightarrow> state \<Rightarrow> (unit outcome \<times> state) option" where
  "scheduler_loop w 0 s = None"
| "scheduler_loop w (Suc n) s =
     (if running s then
        (case run_pending w s of
           (Raised e, s1) \<Rightarrow> Some (Raised e, s1)
         | (Returned u, s1) \<Rightarrow>
             let s2 = emit (EvSleep 60) s1;
                 s3 = (if stop_requested w (trace s2) then stop_scheduler s2 else s2)
             in scheduler_loop w n s3)
      else Some (Returned (), s))"

text \<open>\<^verbatim>\<open>run_scheduler\<close> (lines 233-256).\<close>

definition run_scheduler :: "world \<Rightarrow> nat \<Rightarrow> state \<Rightarrow> state option" where
  "run_scheduler w fuel s =
     (if running s then Some (logger WARNING AlreadyRunning s)
      else
        let s1 = s\<lparr>running := True\<rparr>;
            s2 = s1\<lparr>jobs := jobs s1 @ [(EverySeconds CHECK_INTERVAL_SECONDS, CheckAndRefresh)]\<rparr>;
            s3 = s2\<lparr>jobs := jobs s2 @ [(DailyAt ''00:00'', ResetCounts)]\<rparr>;
            s4 = logger INFO (BatchSchedulerStarted CHECK_INTERVAL_SECONDS) s3;
            s5 = logger INFO ResetSchedulerStarted s4 in
        (case scheduler_loop w fuel s5 of
           None \<Rightarrow> None
         | Some (Raised e, s6) \<Rightarrow> Some ((logger EXCEPTION (SchedulerRaised e) s6)\<lparr>running := False\<rparr>)
         | Some (Returned u, s6) \<Rightarrow> Some (s6\<lparr>running := False\<rparr>)))"

subsection \<open>Reading a history\<close>

text \<open>The events a call added to the history: those of \<open>s'\<close> after those of \<open>s\<close>.\<close>

definition new_events :: "state \<Rightarrow> state \<Rightarrow> event list" where
  "new_events s s' = drop (length (trace s)) (trace s')"

fun is_commit :: "event \<Rightarrow> bool" where
  "is_commit (EvCommit ids) = True"
| "is_commit e = False"

fun is_cache_op :: "event \<Rightarrow> bool" where
  "is_cache_op (EvCachePut i d p) = True"
| "is_cache_op (EvCacheRemove i p) = True"
| "is_cache_op e = False"

fun is_signin :: "event \<Rightarrow> bool" where
  "is_signin (EvSignin t) = True"
| "is_signin e = False"

fun is_expiring_query :: "event \<Rightarrow> bool" where
  "is_expiring_query (EvQuery (Expiring t1 t2)) = True"
| "is_expiring_query e = False"

fun is_submit :: "event \<Rightarrow> bool" where
  "is_submit (EvSubmit i) = True"
| "is_submit e = False"

text \<open>The events of a selection over the table: a submission to the pool, a query that is not a lookup by id.\<close>

fun is_selection :: "event \<Rightarrow> bool" where
  "is_selection (EvSubmit i) = True"
| "is_selection (EvQuery (ById i)) = False"
| "is_selection (EvQuery q) = True"
| "is_selection e = False"


text \<open>
  Two objects that agree on every column but the three the derived calls write
  (\<open>token\<close>, \<open>auth\<close>, \<open>account_type\<close>).
\<close>

definition same_credentials :: "Token \<Rightarrow> Token \<Rightarrow> bool" where
  "same_credentials a b \<longleftrightarrow>
     token_id a = token_id b \<and> account a = account b \<and> enable a = enable b \<and>
     silent_cookies a = silent_cookies b \<and> access_token a = access_token b \<and>
     cookies_expires a = cookies_expires b \<and> token_expires a = token_expires b \<and>
     updated_at a = updated_at b \<and> count a = count b \<and> deleted_at a = deleted_at b"

subsection \<open>Example collaborators and accounts\<close>

text \<open>
  A small \<^verbatim>\<open>json\<close> table (the texts are those \<^verbatim>\<open>json.dumps\<close> writes; a text of
  200000 characters or more stands for one nested too deeply for the parser), a set of
  collaborators that all succeed, and one live, enabled account with five uses whose
  stored credential is \<^verbatim>\<open>{"a": "b"}\<close>.
\<close>

definition example_loads :: "string \<Rightarrow> loaded" where
  \<open>example_loads x =
     (if 200000 \<le> length x then LoadRaised ''RecursionError''
      else if x = ''{"a": "b"}'' then Loaded (JObj [(''a'', JStr ''b'')])
      else if x = ''{"a": "c"}'' then Loaded (JObj [(''a'', JStr ''c'')])
      else if x = ''{}'' then Loaded (JObj [])
      else if x = ''[1]'' then Loaded (JArr [JInt 1])
      else JSONDecodeError)\<close>

definition example_dumps :: "json \<Rightarrow> string" where
  \<open>example_dumps v =
     (if v = JObj [(''a'', JStr ''c'')] then ''{"a": "c"}''
      else if v = JObj [(''a'', JStr ''b'')] then ''{"a": "b"}''
      else if v = JArr [JInt 1] then ''[1]''
      else if v = JObj [(''account_type'', JStr ''paid'')] then ''{"account_type": "paid"}''
      else ''{}'')\<close>

definition example_world :: world where
  "example_world =
     \<lparr>refresh_silent_cookies = (\<lambda>tr c. Returned (True, JObj [(''a'', JStr ''c'')], JStr ''tok123'')),
      signin_with_access_token = (\<lambda>tr t. Returned (JObj [(''token'', JStr ''sess1'')])),
      fetch_auth_info = (\<lambda>tr t a. Returned (JObj [(''account_type'', JStr ''paid'')])),
      test_redis_connection = (\<lambda>tr. Returned True),
      token_to_dict = (\<lambda>a. Returned (JObj [(''id'', JInt (int (token_id a))), (''count'', JInt (count a))])),
      cache_account = (\<lambda>tr i d p. Returned ()),
      remove_cached_account = (\<lambda>tr i p. Returned ()),
      json_loads = example_loads,
      json_dumps = example_dumps,
      json_dumps_raw = example_dumps,
      now = (\<lambda>tr. 1000000 * int (length tr)),
      due_jobs = (\<lambda>tr js. []),
      run_pending_fault = (\<lambda>tr. None),
      stop_requested = (\<lambda>tr. True)\<rparr>"

definition example_account :: Token where
  \<open>example_account =
     \<lparr>token_id = 1, account = ''alice'', enable = 1,
      silent_cookies = Some ''{"a": "b"}'', access_token = JNull, token = JNull,
      auth = None, account_type = JNull, cookies_expires = None, token_expires = None,
      updated_at = None, count = 5, deleted_at = None\<rparr>\<close>

definition example_state :: "Token list \<Rightarrow> state" where
  "example_state rows = \<lparr>store = rows, trace = [], running = False, jobs = []\<rparr>"

text \<open>The Refresh Client reports failure (it returns \<^verbatim>\<open>(False, None, None)\<close>).\<close>

definition world_refresh_fails :: world where
  "world_refresh_fails =
     example_world\<lparr>refresh_silent_cookies := (\<lambda>tr c. Returned (False, JNull, JNull))\<rparr>"

text \<open>The sign-in call times out.\<close>

definition world_signin_raises :: world where
  "world_signin_raises =
     example_world\<lparr>signin_with_access_token := (\<lambda>tr t. Raised ''timeout'')\<rparr>"

text \<open>The cache answers the probe and then fails on every write.\<close>

definition world_cache_down :: world where
  "world_cache_down =
     example_world\<lparr>cache_account := (\<lambda>tr i d p. Raised ''connection lost''),
                   remove_cached_account := (\<lambda>tr i p. Raised ''connection lost'')\<rparr>"

text \<open>A soft-deleted, disabled account with a stored credential.\<close>

definition deleted_account :: Token where
  "deleted_account = example_account\<lparr>enable := 0, deleted_at := Some 1\<rparr>"

text \<open>The scheduling library raises in every poll.\<close>

definition world_schedule_fault :: world where
  "world_schedule_fault = example_world\<lparr>run_pending_fault := (\<lambda>tr. Some ''schedule error'')\<rparr>"

text \<open>The liveness probe answers that the cache is not reachable.\<close>

definition world_cache_offline :: world where
  "world_cache_offline = example_world\<lparr>test_redis_connection := (\<lambda>tr. Returned False)\<rparr>"

text \<open>
  A stored credential of 100000 opening and 100000 closing brackets, on which
  \<^verbatim>\<open>json.loads\<close> raises \<^verbatim>\<open>RecursionError\<close>.
\<close>

definition deep_blob :: string where
  "deep_blob = replicate 100000 (CHR ''['') @ replicate 100000 (CHR '']'')"

section \<open>Properties\<close>

subsection \<open>State and history of the basic steps\<close>

lemma emit_simps [simp]:
  "trace (emit e s) = trace s @ [e]"
  "store (emit e s) = store s"
  "running (emit e s) = running s"
  "jobs (emit e s) = jobs s"
  by (simp_all add: emit_def)

lemma logger_simps [simp]:
  "trace (logger l m s) = trace s @ [EvLog l m]"
  "store (logger l m s) = store s"
  "running (logger l m s) = running s"
  "jobs (logger l m s) = jobs s"
  by (simp_all add: logger_def)

lemma commit_simps [simp]:
  "trace (commit objs s) = trace s @ [EvCommit (map token_id objs)]"
  "store (commit objs s) = write_back objs (store s)"
  "running (commit objs s) = running s"
  "jobs (commit objs s) = jobs s"
  by (simp_all add: commit_def)

lemma datetime_now_eq:
  "datetime_now w s = (now w (trace s), emit (EvNow (now w (trace s))) s)"
  by (simp add: datetime_now_def Let_def)

lemma new_events_append [simp]: "trace s' = trace s @ evs \<Longrightarrow> new_events s s' = evs"
  by (simp add: new_events_def)

lemma find_write_back:
  "find (\<lambda>r. token_id r = i) rows = Some a \<Longrightarrow> token_id b = i \<Longrightarrow>
   find (\<lambda>r. token_id r = i) (write_back [b] rows) = Some b"
  by (induction rows) (auto simp: write_back_def)

lemma find_token_id: "find (\<lambda>r. token_id r = i) rows = Some a \<Longrightarrow> token_id a = i"
  by (induction rows) (auto split: if_splits)

lemma store_cache_remove_try [simp]: "store (snd (cache_remove_try w a s)) = store s"
  by (simp add: cache_remove_try_def Let_def split: outcome.splits)

lemma store_cache_put_try [simp]: "store (snd (cache_put_try w a s)) = store s"
  by (simp add: cache_put_try_def Let_def split: outcome.splits)

lemma disable_account_store:
  "fst (disable_account w a s) = a\<lparr>enable := 0\<rparr>"
  "store (snd (disable_account w a s)) = write_back [a\<lparr>enable := 0\<rparr>] (store s)"
proof -
  obtain r s2 where c: "cache_remove_try w (a\<lparr>enable := 0\<rparr>) (commit [a\<lparr>enable := 0\<rparr>] s) = (r, s2)"
    by (cases "cache_remove_try w (a\<lparr>enable := 0\<rparr>) (commit [a\<lparr>enable := 0\<rparr>] s)")
  have "store s2 = write_back [a\<lparr>enable := 0\<rparr>] (store s)"
    using store_cache_remove_try[of w "a\<lparr>enable := 0\<rparr>" "commit [a\<lparr>enable := 0\<rparr>] s"] c by simp
  then show "fst (disable_account w a s) = a\<lparr>enable := 0\<rparr>"
    "store (snd (disable_account w a s)) = write_back [a\<lparr>enable := 0\<rparr>] (store s)"
    using c by (simp_all add: disable_account_def Let_def split: outcome.splits)
qed

lemma enable_account_store:
  "fst (enable_account w a s) = a\<lparr>enable := 1\<rparr>"
  "store (snd (enable_account w a s)) = write_back [a\<lparr>enable := 1\<rparr>] (store s)"
proof -
  obtain r s2 where c: "cache_put_try w (a\<lparr>enable := 1\<rparr>) (commit [a\<lparr>enable := 1\<rparr>] s) = (r, s2)"
    by (cases "cache_put_try w (a\<lparr>enable := 1\<rparr>) (commit [a\<lparr>enable := 1\<rparr>] s)")
  have "store s2 = write_back [a\<lparr>enable := 1\<rparr>] (store s)"
    using store_cache_put_try[of w "a\<lparr>enable := 1\<rparr>" "commit [a\<lparr>enable := 1\<rparr>] s"] c by simp
  then show "fst (enable_account w a s) = a\<lparr>enable := 1\<rparr>"
    "store (snd (enable_account w a s)) = write_back [a\<lparr>enable := 1\<rparr>] (store s)"
    using c by (simp_all add: enable_account_def Let_def split: outcome.splits)
qed

subsection \<open>A failed refresh (claim C4)\<close>

text \<open>
  Claim C4. Take the account the unit of work finds under its id, with a stored
  credential that passes the two gates, so that the Refresh Client is called. If the
  client returns a false success flag, an empty credential mapping or an empty access
  token, then \<^verbatim>\<open>refresh_cookies\<close> returns \<open>False\<close> and leaves the object as it was,
  and after the unit of work the account's row is the row from before with
  \<open>enable\<close> set to 0: the credential blob, the access token and both expiry columns
  (and every other column) keep their values.
\<close>

theorem failed_refresh_disables_and_keeps_credentials:
  assumes row: "find (\<lambda>r. token_id r = i) (store s) = Some a"
    and blob: "silent_cookies a = Some cs" "cs \<noteq> []" "json_loads w cs = Loaded c" "truthy c"
    and reply: "refresh_silent_cookies w (trace s @ [EvSessionOpen, EvQuery (ById i)]) c
                  = Returned (ok, u, t)"
    and failed: "\<not> ok \<or> \<not> truthy u \<or> \<not> truthy t"
  shows "refresh_cookies w a (emit (EvQuery (ById i)) (emit EvSessionOpen s))
           = (Returned False, a, emit (EvRefresh c) (emit (EvQuery (ById i)) (emit EvSessionOpen s)))
       \<and> store (refresh_single_account w i s) = write_back [a\<lparr>enable := 0\<rparr>] (store s)
       \<and> find (\<lambda>r. token_id r = i) (store (refresh_single_account w i s))
           = Some (a\<lparr>enable := 0\<rparr>)"
proof -
  let ?s1 = "emit (EvQuery (ById i)) (emit EvSessionOpen s)"
  have rc: "refresh_cookies w a ?s1 = (Returned False, a, emit (EvRefresh c) ?s1)"
    using blob reply failed
    by (auto simp: refresh_cookies_def parse_cookies_to_dict_def refresh_cookies_try_def Let_def)
  have st: "store (refresh_single_account w i s) = write_back [a\<lparr>enable := 0\<rparr>] (store s)"
    using row rc disable_account_store(2)[of w a "emit (EvRefresh c) ?s1"]
    by (auto simp: refresh_single_account_def Let_def split: prod.splits)
  have "find (\<lambda>r. token_id r = i) (store (refresh_single_account w i s)) = Some (a\<lparr>enable := 0\<rparr>)"
    unfolding st using find_write_back[OF row, of "a\<lparr>enable := 0\<rparr>"] find_token_id[OF row] by simp
  with rc st show ?thesis by simp
qed

theorem failed_refresh_witness:
  "fst (refresh_cookies world_refresh_fails example_account
          (emit (EvQuery (ById 1)) (emit EvSessionOpen (example_state [example_account]))))
       = Returned False
   \<and> store (refresh_single_account world_refresh_fails 1 (example_state [example_account]))
       = [example_account\<lparr>enable := 0\<rparr>]"
proof -
  have row: "find (\<lambda>r. token_id r = 1) (store (example_state [example_account])) = Some example_account"
    by (simp add: example_state_def example_account_def)
  have blob: \<open>silent_cookies example_account = Some ''{"a": "b"}''\<close> \<open>''{"a": "b"}'' \<noteq> []\<close>
    \<open>json_loads world_refresh_fails ''{"a": "b"}'' = Loaded (JObj [(''a'', JStr ''b'')])\<close>
    "truthy (JObj [(''a'', JStr ''b'')])"
    by (simp_all add: example_account_def world_refresh_fails_def example_world_def example_loads_def)
  have reply: "refresh_silent_cookies world_refresh_fails
      (trace (example_state [example_account]) @ [EvSessionOpen, EvQuery (ById 1)])
      (JObj [(''a'', JStr ''b'')]) = Returned (False, JNull, JNull)"
    by (simp add: world_refresh_fails_def example_world_def)
  have failed: "\<not> False \<or> \<not> truthy JNull \<or> \<not> truthy JNull" by simp
  from failed_refresh_disables_and_keeps_credentials[OF row blob reply failed]
  show ?thesis by (simp add: example_state_def example_account_def write_back_def)
qed

subsection \<open>The steps after the gates\<close>

lemmas model_defs =
  refresh_single_account_def refresh_cookies_def parse_cookies_to_dict_def
  refresh_cookies_try_def success_commit_def signin_step_def auth_step_def
  enable_account_def disable_account_def cache_put_try_def cache_remove_try_def
  datetime_now_def commit_def emit_def logger_def write_back_def Let_def

lemmas example_defs =
  example_world_def example_account_def example_state_def example_loads_def
  example_dumps_def timedelta_days_def timedelta_minutes_def

lemma success_commit_eq:
  "success_commit w a u t s =
     (let t1 = now w (trace s);
          t2 = now w (trace s @ [EvNow t1]);
          t3 = now w (trace s @ [EvNow t1, EvNow t2]);
          t4 = now w (trace s @ [EvNow t1, EvNow t2, EvNow t3]);
          a7 = a\<lparr>silent_cookies := Some (json_dumps w u), access_token := t,
                 cookies_expires := Some (t1 + timedelta_days 30),
                 token_expires := Some (t3 + timedelta_minutes 15),
                 updated_at := Some t4, enable := 1\<rparr>
      in (a7, s\<lparr>store := write_back [a7] (store s),
               trace := trace s @ [EvNow t1, EvNow t2, EvNow t3, EvNow t4, EvCommit [token_id a]]\<rparr>))"
  by (simp add: success_commit_def datetime_now_eq Let_def commit_def emit_def)

lemma signin_step_facts:
  assumes "signin_step w a s = (r, a', s')"
  shows "store s' = store s \<and> same_credentials a' a \<and> auth a' = auth a
     \<and> account_type a' = account_type a
     \<and> (\<exists>evs. trace s' = trace s @ evs \<and> filter is_commit evs = [])"
  using assms
  by (auto simp: signin_step_def same_credentials_def Let_def split: if_splits outcome.splits)

lemma auth_step_facts:
  assumes "auth_step w a s = (r, a', s')"
  shows "store s' = store s \<and> same_credentials a' a \<and> token a' = token a
     \<and> (\<exists>evs. trace s' = trace s @ evs \<and> filter is_commit evs = [])
     \<and> (\<forall>b. r = Returned b \<longrightarrow> b)"
  using assms
  by (auto simp: auth_step_def same_credentials_def Let_def split: if_splits outcome.splits)

lemma same_credentials_trans:
  "same_credentials a b \<Longrightarrow> same_credentials b c \<Longrightarrow> same_credentials a c"
  by (simp add: same_credentials_def)

lemma same_credentials_refl [simp]: "same_credentials a a"
  by (simp add: same_credentials_def)

text \<open>
  With the gates passed and a successful reply, \<^verbatim>\<open>refresh_cookies\<close> is the commit
  followed by the two derived calls; either of them raising ends in the handler.
\<close>

lemma refresh_cookies_after_commit:
  assumes blob: "silent_cookies a = Some cs" "cs \<noteq> []" "json_loads w cs = Loaded c" "truthy c"
    and reply: "refresh_silent_cookies w (trace s) c = Returned (True, u, t)"
    and ne: "truthy u" "truthy t"
    and sc: "success_commit w a u t (emit (EvRefresh c) s) = (a7, s6)"
    and si: "signin_step w a7 s6 = (r1, a8, s7)"
    and au: "auth_step w a8 s7 = (r2, a9, s8)"
  shows "refresh_cookies w a s =
           (case r1 of
              Raised e \<Rightarrow> (Returned False, a8, logger EXCEPTION (RefreshRaised (account a8) e) s7)
            | Returned x \<Rightarrow>
                (case r2 of
                   Raised e \<Rightarrow> (Returned False, a9, logger EXCEPTION (RefreshRaised (account a9) e) s8)
                 | Returned b \<Rightarrow> (Returned b, a9, s8)))"
  using assms
  by (simp add: refresh_cookies_def parse_cookies_to_dict_def refresh_cookies_try_def Let_def
      split: outcome.splits)

subsection \<open>A successful refresh (claim C3)\<close>

text \<open>
  Claim C3. Take an account whose stored credential passes the gates and for which the
  Refresh Client returns success with a non-empty credential mapping \<open>u\<close> and a
  non-empty access token \<open>t\<close>. When \<^verbatim>\<open>refresh_cookies\<close> has completed, the object has
  \<open>enable = 1\<close>, the serialization of \<open>u\<close> as its credential blob, \<open>t\<close> as its access
  token, a credential expiry of now plus 30 days, a session expiry of now plus 15
  minutes and \<open>updated_at\<close> set to now, where each now is the reading of the clock
  taken by the assignment itself (the four readings \<open>t1\<close> to \<open>t4\<close> follow the reply of
  the client and precede the commit). The committed row holds exactly these values:
  there is one commit, it writes this account only, and nothing but the call of the
  client and the four clock readings comes before it, so no sign-in or identity fetch
  does. Where the \<^verbatim>\<open>json\<close> library reads back what it wrote, parsing the stored
  blob yields \<open>u\<close>.
\<close>

theorem successful_refresh_commits_credentials:
  fixes w :: world and a a7 :: Token and s :: state and c u t :: json
    and t1 t2 t3 t4 :: datetime
  defines "t1 \<equiv> now w (trace s @ [EvRefresh c])"
    and "t2 \<equiv> now w (trace s @ [EvRefresh c, EvNow t1])"
    and "t3 \<equiv> now w (trace s @ [EvRefresh c, EvNow t1, EvNow t2])"
    and "t4 \<equiv> now w (trace s @ [EvRefresh c, EvNow t1, EvNow t2, EvNow t3])"
    and "a7 \<equiv> a\<lparr>silent_cookies := Some (json_dumps w u), access_token := t,
                  cookies_expires := Some (t1 + timedelta_days 30),
                  token_expires := Some (t3 + timedelta_minutes 15),
                  updated_at := Some t4, enable := 1\<rparr>"
  assumes blob: "silent_cookies a = Some cs" "cs \<noteq> []" "json_loads w cs = Loaded c" "truthy c"
    and reply: "refresh_silent_cookies w (trace s) c = Returned (True, u, t)"
    and ne: "truthy u" "truthy t"
    and res: "refresh_cookies w a s = (r, a', s')"
  shows "enable a' = 1
       \<and> silent_cookies a' = Some (json_dumps w u)
       \<and> access_token a' = t
       \<and> cookies_expires a' = Some (t1 + timedelta_days 30)
       \<and> token_expires a' = Some (t3 + timedelta_minutes 15)
       \<and> updated_at a' = Some t4
       \<and> same_credentials a' a7
       \<and> store s' = write_back [a7] (store s)
       \<and> take 6 (new_events s s')
           = [EvRefresh c, EvNow t1, EvNow t2, EvNow t3, EvNow t4, EvCommit [token_id a]]
       \<and> filter is_commit (new_events s s') = [EvCommit [token_id a]]
       \<and> (json_dumps w u \<noteq> [] \<and> json_loads w (json_dumps w u) = Loaded u \<longrightarrow>
            fst (parse_cookies_to_dict w (json_dumps w u) s') = Returned u)"
proof -
  let ?s1 = "emit (EvRefresh c) s"
  obtain s6 where sc: "success_commit w a u t ?s1 = (a7, s6)"
    and s6: "store s6 = write_back [a7] (store s)"
      "trace s6 = trace s @ [EvRefresh c, EvNow t1, EvNow t2, EvNow t3, EvNow t4, EvCommit [token_id a]]"
    by (simp add: success_commit_eq Let_def t1_def t2_def t3_def t4_def a7_def)
  obtain r1 a8 s7 where si: "signin_step w a7 s6 = (r1, a8, s7)"
    by (cases "signin_step w a7 s6")
  obtain r2 a9 s8 where au: "auth_step w a8 s7 = (r2, a9, s8)"
    by (cases "auth_step w a8 s7")
  note f1 = signin_step_facts[OF si] and f2 = auth_step_facts[OF au]
  obtain e1 where e1: "trace s7 = trace s6 @ e1" "filter is_commit e1 = []" using f1 by blast
  obtain e2 where e2: "trace s8 = trace s7 @ e2" "filter is_commit e2 = []" using f2 by blast
  have sc8: "same_credentials a8 a7" using f1 by simp
  have sc9: "same_credentials a9 a7" using f2 sc8 same_credentials_trans by blast
  have st7: "store s7 = write_back [a7] (store s)" using f1 s6 by simp
  have st8: "store s8 = write_back [a7] (store s)" using f2 st7 by simp
  have rc: "refresh_cookies w a s =
           (case r1 of
              Raised e \<Rightarrow> (Returned False, a8, logger EXCEPTION (RefreshRaised (account a8) e) s7)
            | Returned x \<Rightarrow>
                (case r2 of
                   Raised e \<Rightarrow> (Returned False, a9, logger EXCEPTION (RefreshRaised (account a9) e) s8)
                 | Returned b \<Rightarrow> (Returned b, a9, s8)))"
    by (rule refresh_cookies_after_commit[OF blob reply ne sc si au])
  have "\<exists>evs. same_credentials a' a7 \<and> store s' = write_back [a7] (store s)
          \<and> trace s' = trace s @ [EvRefresh c, EvNow t1, EvNow t2, EvNow t3, EvNow t4,
                                   EvCommit [token_id a]] @ evs
          \<and> filter is_commit evs = []"
  proof (cases r1)
    case (Raised e)
    then have "a' = a8" "s' = logger EXCEPTION (RefreshRaised (account a8) e) s7"
      using rc res by simp_all
    then show ?thesis using sc8 st7 s6 e1
      by (intro exI[of _ "e1 @ [EvLog EXCEPTION (RefreshRaised (account a8) e)]"]) simp
  next
    case R1: (Returned x)
    show ?thesis
    proof (cases r2)
      case (Raised e)
      then have "a' = a9" "s' = logger EXCEPTION (RefreshRaised (account a9) e) s8"
        using rc res R1 by simp_all
      then show ?thesis using sc9 st8 s6 e1 e2
        by (intro exI[of _ "e1 @ e2 @ [EvLog EXCEPTION (RefreshRaised (account a9) e)]"]) simp
    next
      case (Returned b)
      then have "a' = a9" "s' = s8" using rc res R1 by simp_all
      then show ?thesis using sc9 st8 s6 e1 e2
        by (intro exI[of _ "e1 @ e2"]) simp
    qed
  qed
  then obtain evs where k: "same_credentials a' a7" "store s' = write_back [a7] (store s)"
    "trace s' = trace s @ ([EvRefresh c, EvNow t1, EvNow t2, EvNow t3, EvNow t4,
                            EvCommit [token_id a]] @ evs)"
    "filter is_commit evs = []"
    by auto
  have ne': "new_events s s' = [EvRefresh c, EvNow t1, EvNow t2, EvNow t3, EvNow t4,
                               EvCommit [token_id a]] @ evs"
    using k(3) by (rule new_events_append)
  have fields: "enable a' = 1" "silent_cookies a' = Some (json_dumps w u)" "access_token a' = t"
    "cookies_expires a' = Some (t1 + timedelta_days 30)"
    "token_expires a' = Some (t3 + timedelta_minutes 15)" "updated_at a' = Some t4"
    using k(1) by (simp_all add: same_credentials_def a7_def)
  have parse: "json_dumps w u \<noteq> [] \<and> json_loads w (json_dumps w u) = Loaded u \<longrightarrow>
            fst (parse_cookies_to_dict w (json_dumps w u) s') = Returned u"
    by (simp add: parse_cookies_to_dict_def)
  show ?thesis using fields k(1,2,4) ne' parse by simp
qed

theorem successful_refresh_witness:
  \<open>refresh_cookies example_world example_account (example_state [example_account\<lparr>enable := 0\<rparr>])
     = (Returned True,
        example_account\<lparr>silent_cookies := Some ''{"a": "c"}'', access_token := JStr ''tok123'',
          cookies_expires := Some 2592001000000, token_expires := Some 903000000,
          updated_at := Some 4000000, enable := 1,
          token := JStr ''sess1'', auth := Some ''{"account_type": "paid"}'',
          account_type := JStr ''paid''\<rparr>,
        \<lparr>store = [example_account\<lparr>silent_cookies := Some ''{"a": "c"}'',
                    access_token := JStr ''tok123'',
                    cookies_expires := Some 2592001000000, token_expires := Some 903000000,
                    updated_at := Some 4000000, enable := 1\<rparr>],
         trace = [EvRefresh (JObj [(''a'', JStr ''b'')]), EvNow 1000000, EvNow 2000000,
                  EvNow 3000000, EvNow 4000000, EvCommit [1], EvSignin (JStr ''tok123''),
                  EvFetchAuth (JStr ''sess1'') (JStr ''tok123'')],
         running = False, jobs = []\<rparr>)
   \<and> fst (parse_cookies_to_dict example_world ''{"a": "c"}'' (example_state []))
       = Returned (JObj [(''a'', JStr ''c'')])\<close>
proof -
  have blob: \<open>silent_cookies example_account = Some ''{"a": "b"}''\<close> \<open>''{"a": "b"}'' \<noteq> []\<close>
    \<open>json_loads example_world ''{"a": "b"}'' = Loaded (JObj [(''a'', JStr ''b'')])\<close>
    "truthy (JObj [(''a'', JStr ''b'')])"
    by (simp_all add: example_defs)
  have reply: "refresh_silent_cookies example_world
      (trace (example_state [example_account\<lparr>enable := 0\<rparr>])) (JObj [(''a'', JStr ''b'')])
        = Returned (True, JObj [(''a'', JStr ''c'')], JStr ''tok123'')"
    by (simp add: example_defs)
  have ne: "truthy (JObj [(''a'', JStr ''c'')])" "truthy (JStr ''tok123'')" by simp_all
  let ?R = "refresh_cookies example_world example_account
              (example_state [example_account\<lparr>enable := 0\<rparr>])"
  have res: "?R = (fst ?R, fst (snd ?R), snd (snd ?R))" by simp
  from successful_refresh_commits_credentials[OF blob reply ne res]
  show ?thesis
    by (simp add: model_defs example_defs)
qed

subsection \<open>An exception after the commit (claim C2)\<close>

lemma unit_verdict:
  assumes row: "find (\<lambda>r. token_id r = i) (store s) = Some a"
    and rc: "refresh_cookies w a (emit (EvQuery (ById i)) (emit EvSessionOpen s))
               = (Returned r, a', s')"
    and id: "token_id a' = i"
    and f: "find (\<lambda>r. token_id r = i) (store s') = Some b"
  shows "find (\<lambda>r. token_id r = i) (store (refresh_single_account w i s))
           = Some (a'\<lparr>enable := (if r then 1 else 0)\<rparr>)"
proof (cases r)
  case True
  have "store (refresh_single_account w i s) = store (snd (enable_account w a' s'))"
    using row rc True by (simp add: refresh_single_account_def Let_def split: prod.splits)
  then show ?thesis
    using True enable_account_store(2)[of w a' s'] find_write_back[OF f, of "a'\<lparr>enable := 1\<rparr>"] id
    by simp
next
  case False
  have "store (refresh_single_account w i s) = store (snd (disable_account w a' s'))"
    using row rc False by (simp add: refresh_single_account_def Let_def split: prod.splits)
  then show ?thesis
    using False disable_account_store(2)[of w a' s'] find_write_back[OF f, of "a'\<lparr>enable := 0\<rparr>"] id
    by simp
qed




subsection \<open>The transitions and the cache (claim C8)\<close>









subsection \<open>The parse gate (claim C10)\<close>

text \<open>
  Claim C10 as stated fails in its last part: \<^verbatim>\<open>parse_cookies_to_dict\<close> does raise.
  On a stored blob nested too deeply, \<^verbatim>\<open>json.loads\<close> raises \<^verbatim>\<open>RecursionError\<close>,
  which the handler of line 66 does not catch; the exception leaves the function and,
  line 78 standing before the \<^verbatim>\<open>try\<close>, \<^verbatim>\<open>refresh_cookies\<close> as well.
\<close>

theorem parse_raises_counterexample:
  "fst (parse_cookies_to_dict example_world deep_blob (example_state []))
     = Raised ''RecursionError''
   \<and> fst (refresh_cookies example_world (example_account\<lparr>silent_cookies := Some deep_blob\<rparr>)
            (example_state [])) = Raised ''RecursionError''"
  by (simp add: refresh_cookies_def parse_cookies_to_dict_def deep_blob_def example_world_def
      example_loads_def example_account_def)

text \<open>
  Claim C10, amended. The gate that follows the parse tests the truth value of what was
  parsed and nothing else. A stored blob that parses to a falsy value (the empty
  object, for one) makes \<^verbatim>\<open>refresh_cookies\<close> return \<open>False\<close> with the object
  unchanged and a log line as its only event, so the Refresh Client is not called; a
  blob that parses to a truthy value, object or not, is passed to the Refresh Client,
  whose call is the first event. \<^verbatim>\<open>parse_cookies_to_dict\<close> returns the empty dict
  on an empty string and, with a log line, on a \<^verbatim>\<open>JSONDecodeError\<close> (which then
  fails the gate); it returns the parsed value otherwise. Any other exception of
  \<^verbatim>\<open>json.loads\<close> leaves \<^verbatim>\<open>parse_cookies_to_dict\<close> and \<^verbatim>\<open>refresh_cookies\<close>
  with no event added and the Refresh Client not called; the unit of work logs it,
  commits nothing and closes its session.
\<close>

theorem parse_gate_tests_truthiness:
  assumes "silent_cookies a = Some cs" "cs \<noteq> []"
  shows "parse_cookies_to_dict w [] s = (Returned (JObj []), s)
       \<and> (x \<noteq> [] \<and> json_loads w x = JSONDecodeError \<longrightarrow>
            parse_cookies_to_dict w x s
              = (Returned (JObj []), logger ERROR (ParseFailed (take 100 x)) s))
       \<and> (x \<noteq> [] \<and> json_loads w x = Loaded v \<longrightarrow>
            parse_cookies_to_dict w x s = (Returned v, s))
       \<and> (x \<noteq> [] \<and> json_loads w x = LoadRaised e \<longrightarrow>
            parse_cookies_to_dict w x s = (Raised e, s))
       \<and> (json_loads w cs = Loaded v \<and> \<not> truthy v \<longrightarrow>
            refresh_cookies w a s
              = (Returned False, a, logger ERROR (InvalidCookies (account a)) s))
       \<and> (json_loads w cs = JSONDecodeError \<longrightarrow>
            refresh_cookies w a s
              = (Returned False, a,
                 logger ERROR (InvalidCookies (account a))
                   (logger ERROR (ParseFailed (take 100 cs)) s)))
       \<and> (json_loads w cs = Loaded v \<and> truthy v \<longrightarrow>
            take 1 (new_events s (snd (snd (refresh_cookies w a s)))) = [EvRefresh v])
       \<and> (json_loads w cs = LoadRaised e \<longrightarrow> refresh_cookies w a s = (Raised e, a, s))
       \<and> (json_loads w cs = LoadRaised e \<and> find (\<lambda>r. token_id r = i) (store s) = Some a \<longrightarrow>
            refresh_single_account w i s
              = emit EvSessionClose
                  (logger EXCEPTION (UnitRaised i e)
                     (emit (EvQuery (ById i)) (emit EvSessionOpen s))))"
proof -
  have tr: "\<exists>evs. trace (snd (snd (refresh_cookies_try w a v s))) = trace s @ EvRefresh v # evs"
  proof (cases "refresh_silent_cookies w (trace s) v")
    case (Raised e)
    then show ?thesis by (simp add: refresh_cookies_try_def Let_def)
  next
    case (Returned rep)
    obtain ok u t where rep: "rep = (ok, u, t)" by (cases rep)
    show ?thesis
    proof (cases "\<not> ok \<or> \<not> truthy u \<or> \<not> truthy t")
      case True
      then show ?thesis using Returned rep by (auto simp: refresh_cookies_try_def Let_def)
    next
      case False
      obtain a7 s6 where sc: "success_commit w a u t (emit (EvRefresh v) s) = (a7, s6)"
        by (cases "success_commit w a u t (emit (EvRefresh v) s)")
      obtain r1 a8 s7 where si: "signin_step w a7 s6 = (r1, a8, s7)"
        by (cases "signin_step w a7 s6")
      obtain r2 a9 s8 where au: "auth_step w a8 s7 = (r2, a9, s8)"
        by (cases "auth_step w a8 s7")
      have t6: "\<exists>evs. trace s6 = trace s @ EvRefresh v # evs"
        using sc by (auto simp: success_commit_eq Let_def)
      then have t7: "\<exists>evs. trace s7 = trace s @ EvRefresh v # evs"
        using signin_step_facts[OF si] by auto
      then have t8: "\<exists>evs. trace s8 = trace s @ EvRefresh v # evs"
        using auth_step_facts[OF au] by auto
      show ?thesis using False Returned rep sc si au t7 t8
        by (cases r1) (auto simp: refresh_cookies_try_def Let_def)
    qed
  qed
  have truthy_case: "json_loads w cs = Loaded v \<and> truthy v \<longrightarrow>
      take 1 (new_events s (snd (snd (refresh_cookies w a s)))) = [EvRefresh v]"
  proof
    assume h: "json_loads w cs = Loaded v \<and> truthy v"
    obtain r a' s' where t: "refresh_cookies_try w a v s = (r, a', s')"
      by (cases "refresh_cookies_try w a v s")
    obtain evs where evs: "trace s' = trace s @ EvRefresh v # evs" using tr t by auto
    have "\<exists>evs'. trace (snd (snd (refresh_cookies w a s))) = trace s @ (EvRefresh v # evs')"
      using assms h t evs
      by (cases r) (auto simp: refresh_cookies_def parse_cookies_to_dict_def)
    then obtain evs' where "trace (snd (snd (refresh_cookies w a s))) = trace s @ (EvRefresh v # evs')"
      by blast
    then have "new_events s (snd (snd (refresh_cookies w a s))) = EvRefresh v # evs'"
      by (rule new_events_append)
    then show "take 1 (new_events s (snd (snd (refresh_cookies w a s)))) = [EvRefresh v]" by simp
  qed
  have raised: "json_loads w cs = LoadRaised e \<Longrightarrow> refresh_cookies w a s' = (Raised e, a, s')" for s'
    using assms by (simp add: refresh_cookies_def parse_cookies_to_dict_def)
  have unit: "json_loads w cs = LoadRaised e \<and> find (\<lambda>r. token_id r = i) (store s) = Some a \<longrightarrow>
            refresh_single_account w i s
              = emit EvSessionClose
                  (logger EXCEPTION (UnitRaised i e)
                     (emit (EvQuery (ById i)) (emit EvSessionOpen s)))"
    using raised[of "emit (EvQuery (ById i)) (emit EvSessionOpen s)"]
    by (simp add: refresh_single_account_def Let_def)
  have rest: "parse_cookies_to_dict w [] s = (Returned (JObj []), s)
       \<and> (x \<noteq> [] \<and> json_loads w x = JSONDecodeError \<longrightarrow>
            parse_cookies_to_dict w x s
              = (Returned (JObj []), logger ERROR (ParseFailed (take 100 x)) s))
       \<and> (x \<noteq> [] \<and> json_loads w x = Loaded v \<longrightarrow>
            parse_cookies_to_dict w x s = (Returned v, s))
       \<and> (x \<noteq> [] \<and> json_loads w x = LoadRaised e \<longrightarrow>
            parse_cookies_to_dict w x s = (Raised e, s))
       \<and> (json_loads w cs = Loaded v \<and> \<not> truthy v \<longrightarrow>
            refresh_cookies w a s
              = (Returned False, a, logger ERROR (InvalidCookies (account a)) s))
       \<and> (json_loads w cs = JSONDecodeError \<longrightarrow>
            refresh_cookies w a s
              = (Returned False, a,
                 logger ERROR (InvalidCookies (account a))
                   (logger ERROR (ParseFailed (take 100 cs)) s)))"
    using assms by (simp add: refresh_cookies_def parse_cookies_to_dict_def)
  show ?thesis using rest truthy_case raised[of s] unit by blast
qed

theorem parse_gate_witness:
  \<open>refresh_cookies example_world (example_account\<lparr>silent_cookies := Some ''{}''\<rparr>) (example_state [])
     = (Returned False, example_account\<lparr>silent_cookies := Some ''{}''\<rparr>,
        logger ERROR (InvalidCookies ''alice'') (example_state []))
   \<and> take 1 (new_events (example_state [])
        (snd (snd (refresh_cookies example_world (example_account\<lparr>silent_cookies := Some ''[1]''\<rparr>)
           (example_state []))))) = [EvRefresh (JArr [JInt 1])]
   \<and> parse_cookies_to_dict example_world ''not-json'' (example_state [])
       = (Returned (JObj []), logger ERROR (ParseFailed ''not-json'') (example_state []))
   \<and> refresh_single_account example_world 1
        (example_state [example_account\<lparr>silent_cookies := Some deep_blob\<rparr>])
       = \<lparr>store = [example_account\<lparr>silent_cookies := Some deep_blob\<rparr>],
          trace = [EvSessionOpen, EvQuery (ById 1),
                   EvLog EXCEPTION (UnitRaised 1 ''RecursionError''), EvSessionClose],
          running = False, jobs = []\<rparr>\<close>
proof -
  have e: \<open>silent_cookies (example_account\<lparr>silent_cookies := Some ''{}''\<rparr>) = Some ''{}''\<close>
    \<open>''{}'' \<noteq> []\<close>
    and el: \<open>json_loads example_world ''{}'' = Loaded (JObj [])\<close>
    by (simp_all add: example_defs)
  have l: \<open>silent_cookies (example_account\<lparr>silent_cookies := Some ''[1]''\<rparr>) = Some ''[1]''\<close>
    \<open>''[1]'' \<noteq> []\<close>
    and ll: \<open>json_loads example_world ''[1]'' = Loaded (JArr [JInt 1])\<close>
    by (simp_all add: example_defs)
  have n: \<open>json_loads example_world ''not-json'' = JSONDecodeError\<close> \<open>''not-json'' \<noteq> []\<close>
    by (simp_all add: example_defs)
  have d: "silent_cookies (example_account\<lparr>silent_cookies := Some deep_blob\<rparr>) = Some deep_blob"
    "deep_blob \<noteq> []"
    and dl: "json_loads example_world deep_blob = LoadRaised ''RecursionError''"
    by (simp_all add: example_defs deep_blob_def)
  have row: "find (\<lambda>r. token_id r = 1)
        (store (example_state [example_account\<lparr>silent_cookies := Some deep_blob\<rparr>]))
      = Some (example_account\<lparr>silent_cookies := Some deep_blob\<rparr>)"
    by (simp add: example_state_def example_account_def)
  from parse_gate_tests_truthiness[OF e, of example_world "example_state []" "''not-json''"
         "JObj []"] el n
  have c1: \<open>refresh_cookies example_world (example_account\<lparr>silent_cookies := Some ''{}''\<rparr>)
               (example_state [])
     = (Returned False, example_account\<lparr>silent_cookies := Some ''{}''\<rparr>,
        logger ERROR (InvalidCookies ''alice'') (example_state []))\<close>
    and c3: \<open>parse_cookies_to_dict example_world ''not-json'' (example_state [])
       = (Returned (JObj []), logger ERROR (ParseFailed ''not-json'') (example_state []))\<close>
    by (simp_all add: example_account_def)
  from parse_gate_tests_truthiness[OF l, of example_world "example_state []" "''not-json''"
         "JArr [JInt 1]"] ll
  have c2: \<open>take 1 (new_events (example_state [])
        (snd (snd (refresh_cookies example_world (example_account\<lparr>silent_cookies := Some ''[1]''\<rparr>)
           (example_state []))))) = [EvRefresh (JArr [JInt 1])]\<close>
    by simp
  from parse_gate_tests_truthiness[OF d, where w = example_world and i = 1
         and e = "''RecursionError''"
         and s = "example_state [example_account\<lparr>silent_cookies := Some deep_blob\<rparr>]"] dl row
  have c4: "refresh_single_account example_world 1
        (example_state [example_account\<lparr>silent_cookies := Some deep_blob\<rparr>])
       = emit EvSessionClose (logger EXCEPTION (UnitRaised 1 ''RecursionError'')
           (emit (EvQuery (ById 1)) (emit EvSessionOpen
              (example_state [example_account\<lparr>silent_cookies := Some deep_blob\<rparr>]))))"
    by simp
  show ?thesis using c1 c2 c3 c4
    by (simp add: emit_def logger_def example_state_def)
qed

subsection \<open>The sign-in is not repeated (claim C6)\<close>

lemma signin_step_events:
  "filter is_signin (trace (snd (snd (signin_step w a s))))
     = filter is_signin (trace s)
       @ (if truthy (access_token a) \<and> \<not> truthy (token a) then [EvSignin (access_token a)] else [])"
  by (simp add: signin_step_def split: outcome.splits)

lemma signin_step_has_token: "truthy (token a) \<Longrightarrow> signin_step w a s = (Returned (), a, s)"
  by (simp add: signin_step_def)

lemma auth_step_no_signin:
  "filter is_signin (trace (snd (snd (auth_step w a s)))) = filter is_signin (trace s)"
  by (simp add: auth_step_def Let_def split: outcome.splits)

lemma cache_try_no_signin:
  "filter is_signin (trace (snd (cache_put_try w a s))) = filter is_signin (trace s)"
  "filter is_signin (trace (snd (cache_remove_try w a s))) = filter is_signin (trace s)"
  by (simp_all add: cache_put_try_def cache_remove_try_def Let_def split: outcome.splits)

lemma transitions_no_signin:
  "filter is_signin (trace (snd (enable_account w a s))) = filter is_signin (trace s)"
  "filter is_signin (trace (snd (disable_account w a s))) = filter is_signin (trace s)"
proof -
  show "filter is_signin (trace (snd (enable_account w a s))) = filter is_signin (trace s)"
    using cache_try_no_signin(1)[of w "a\<lparr>enable := 1\<rparr>" "commit [a\<lparr>enable := 1\<rparr>] s"]
    by (auto simp: enable_account_def Let_def split: prod.splits outcome.splits)
  show "filter is_signin (trace (snd (disable_account w a s))) = filter is_signin (trace s)"
    using cache_try_no_signin(2)[of w "a\<lparr>enable := 0\<rparr>" "commit [a\<lparr>enable := 0\<rparr>] s"]
    by (auto simp: disable_account_def Let_def split: prod.splits outcome.splits)
qed

text \<open>
  With a session token present, every path through \<^verbatim>\<open>refresh_cookies\<close> keeps the
  token and the id, adds no sign-in, and leaves the store as it was or with the row of
  this account rewritten.
\<close>

lemma refresh_cookies_with_token:
  assumes tok: "truthy (token a)" and res: "refresh_cookies w a s = (r, a', s')"
  shows "token a' = token a \<and> token_id a' = token_id a
       \<and> filter is_signin (trace s') = filter is_signin (trace s)
       \<and> (store s' = store s \<or>
           (\<exists>b. token_id b = token_id a \<and> token b = token a \<and> store s' = write_back [b] (store s)))"
proof (cases "\<exists>cs c u t. silent_cookies a = Some cs \<and> cs \<noteq> [] \<and> json_loads w cs = Loaded c
                \<and> truthy c \<and> refresh_silent_cookies w (trace s) c = Returned (True, u, t)
                \<and> truthy u \<and> truthy t")
  case False
  then have "a' = a \<and> store s' = store s
      \<and> filter is_signin (trace s') = filter is_signin (trace s)"
    using res
    by (auto simp: refresh_cookies_def parse_cookies_to_dict_def refresh_cookies_try_def Let_def
        split: option.splits if_splits outcome.splits loaded.splits)
  then show ?thesis by simp
next
  case True
  then obtain cs c u t where blob: "silent_cookies a = Some cs" "cs \<noteq> []"
      "json_loads w cs = Loaded c" "truthy c"
    and reply: "refresh_silent_cookies w (trace s) c = Returned (True, u, t)"
    and ne: "truthy u" "truthy t"
    by blast
  obtain a7 s6 where sc: "success_commit w a u t (emit (EvRefresh c) s) = (a7, s6)"
    by (cases "success_commit w a u t (emit (EvRefresh c) s)")
  have a7: "token a7 = token a" "token_id a7 = token_id a"
    and s6: "store s6 = write_back [a7] (store s)"
      "filter is_signin (trace s6) = filter is_signin (trace s)"
    using sc by (auto simp: success_commit_eq Let_def)
  have si: "signin_step w a7 s6 = (Returned (), a7, s6)"
    using signin_step_has_token tok a7 by simp
  obtain r2 a9 s8 where au: "auth_step w a7 s6 = (r2, a9, s8)"
    by (cases "auth_step w a7 s6")
  note f2 = auth_step_facts[OF au]
  have s8: "filter is_signin (trace s8) = filter is_signin (trace s)"
    using auth_step_no_signin[of w a7 s6] au s6 by simp
  have rc: "refresh_cookies w a s =
           (case r2 of
              Raised e \<Rightarrow> (Returned False, a9, logger EXCEPTION (RefreshRaised (account a9) e) s8)
            | Returned b \<Rightarrow> (Returned b, a9, s8))"
    using refresh_cookies_after_commit[OF blob reply ne sc si au] by simp
  have "a' = a9 \<and> store s' = store s8 \<and> filter is_signin (trace s') = filter is_signin (trace s8)"
    using rc res by (cases r2) auto
  then show ?thesis using f2 a7 s6 s8 by (auto simp: same_credentials_def)
qed

lemma unit_with_token:
  assumes row: "find (\<lambda>r. token_id r = i) (store s) = Some a" and tok: "truthy (token a)"
  shows "filter is_signin (trace (refresh_single_account w i s)) = filter is_signin (trace s)
       \<and> (\<exists>b. find (\<lambda>r. token_id r = i) (store (refresh_single_account w i s)) = Some b
              \<and> token b = token a)"
proof -
  let ?s1 = "emit (EvQuery (ById i)) (emit EvSessionOpen s)"
  obtain r a' s' where res: "refresh_cookies w a ?s1 = (r, a', s')"
    by (cases "refresh_cookies w a ?s1")
  note k = refresh_cookies_with_token[OF tok res]
  have id: "token_id a = i" by (rule find_token_id[OF row])
  have f: "\<exists>b. find (\<lambda>r. token_id r = i) (store s') = Some b \<and> token b = token a"
    using k row id find_write_back[OF row] by auto
  then obtain b where b: "find (\<lambda>r. token_id r = i) (store s') = Some b" "token b = token a"
    by blast
  have id': "token_id a' = i" using k id by simp
  show ?thesis
  proof (cases r)
    case (Raised e)
    then have "refresh_single_account w i s
        = emit EvSessionClose (logger EXCEPTION (UnitRaised i e) s')"
      using row res by (simp add: refresh_single_account_def Let_def)
    then show ?thesis using k b by simp
  next
    case (Returned success)
    then have res': "refresh_cookies w a ?s1 = (Returned success, a', s')" using res by simp
    have st: "find (\<lambda>r. token_id r = i) (store (refresh_single_account w i s))
             = Some (a'\<lparr>enable := (if success then 1 else 0)\<rparr>)"
      by (rule unit_verdict[OF row res' id' b(1)])
    have tr: "filter is_signin (trace (refresh_single_account w i s)) = filter is_signin (trace s)"
      using row res' k transitions_no_signin(1)[of w a' s'] transitions_no_signin(2)[of w a' s']
      by (auto simp: refresh_single_account_def Let_def split: prod.splits)
    show ?thesis using st tr k by simp
  qed
qed

text \<open>
  Claim C6. The sign-in step calls the client exactly when the object has a (truthy)
  access token and no (truthy) session token. So for an account stored with a session
  token, one run of \<^verbatim>\<open>refresh_cookies\<close> adds no sign-in call, and neither does any
  number of successive units of work on that account, whatever the collaborators
  answer in each run (\<open>ws\<close> gives the collaborators of each run in turn).
\<close>

theorem signin_only_without_session_token:
  assumes row: "find (\<lambda>r. token_id r = i) (store s) = Some a" and tok: "truthy (token a)"
  shows "filter is_signin (trace (snd (snd (signin_step w b s))))
           = filter is_signin (trace s)
             @ (if truthy (access_token b) \<and> \<not> truthy (token b) then [EvSignin (access_token b)]
                else [])
       \<and> filter is_signin (trace (snd (snd (refresh_cookies w a s)))) = filter is_signin (trace s)
       \<and> filter is_signin (trace (fold (\<lambda>w'. refresh_single_account w' i) ws s))
           = filter is_signin (trace s)"
proof -
  have one: "filter is_signin (trace (snd (snd (refresh_cookies w a s)))) = filter is_signin (trace s)"
    using refresh_cookies_with_token[OF tok, of w s] by (cases "refresh_cookies w a s") simp
  have many: "filter is_signin (trace (fold (\<lambda>w'. refresh_single_account w' i) ws s))
           = filter is_signin (trace s)"
    using row tok
  proof (induction ws arbitrary: s a)
    case Nil
    then show ?case by simp
  next
    case (Cons w' ws)
    from unit_with_token[OF Cons.prems, of w'] obtain b where
      tr: "filter is_signin (trace (refresh_single_account w' i s)) = filter is_signin (trace s)"
      and b: "find (\<lambda>r. token_id r = i) (store (refresh_single_account w' i s)) = Some b"
        "token b = token a"
      by blast
    have "truthy (token b)" using b Cons.prems by simp
    from Cons.IH[OF b(1) this] tr show ?case by simp
  qed
  show ?thesis using signin_step_events one many by simp
qed

theorem signin_only_witness:
  "filter is_signin (trace (refresh_single_account example_world 1 (example_state [example_account])))
     = [EvSignin (JStr ''tok123'')]
   \<and> filter is_signin (trace (fold (\<lambda>w'. refresh_single_account w' 1)
        [example_world, world_signin_raises, example_world]
        (refresh_single_account example_world 1 (example_state [example_account]))))
     = [EvSignin (JStr ''tok123'')]"
proof -
  let ?s = "refresh_single_account example_world 1 (example_state [example_account])"
  let ?a = "example_account\<lparr>silent_cookies := Some (example_dumps (JObj [(''a'', JStr ''c'')])),
      access_token := JStr ''tok123'', cookies_expires := Some 2592003000000,
      token_expires := Some 905000000, updated_at := Some 6000000,
      token := JStr ''sess1'',
      auth := Some (example_dumps (JObj [(''account_type'', JStr ''paid'')])),
      account_type := JStr ''paid'', enable := 1\<rparr>"
  have first: "filter is_signin (trace ?s) = [EvSignin (JStr ''tok123'')]"
    by (simp add: model_defs example_defs)
  have row: "find (\<lambda>r. token_id r = 1) (store ?s) = Some ?a"
    by (simp add: model_defs example_defs)
  have tok: "truthy (token ?a)" by simp
  from signin_only_without_session_token[OF row tok, of example_world example_account
      "[example_world, world_signin_raises, example_world]"] first
  show ?thesis by simp
qed

subsection \<open>A soft-deleted account in the unit of work (claim C1)\<close>

text \<open>
  Claim C1 says that every query excludes soft-deleted accounts, the lookup by id of the
  unit of work included. That lookup (line 148) filters on the id alone. Given the id
  of a soft-deleted, disabled account, the unit of work refreshes the account, writes
  its row with \<open>enable = 1\<close> and puts it into both partitions of the cache.
\<close>

theorem unit_refreshes_soft_deleted_account:
  \<open>deleted_at deleted_account = Some 1
   \<and> enable deleted_account = 0
   \<and> store (refresh_single_account example_world 1 (example_state [deleted_account]))
       = [deleted_account\<lparr>silent_cookies := Some ''{"a": "c"}'', access_token := JStr ''tok123'',
            cookies_expires := Some 2592003000000, token_expires := Some 905000000,
            updated_at := Some 6000000, token := JStr ''sess1'',
            auth := Some ''{"account_type": "paid"}'',
            account_type := JStr ''paid'', enable := 1\<rparr>]
   \<and> filter is_cache_op (trace (refresh_single_account example_world 1
         (example_state [deleted_account])))
       = [EvCachePut 1 (JObj [(''id'', JInt 1), (''count'', JInt 5)]) False,
          EvCachePut 1 (JObj [(''id'', JInt 1), (''count'', JInt 5)]) True]\<close>
  by (simp add: model_defs example_defs deleted_account_def)

subsection \<open>The scheduler's flag (claim C9)\<close>

lemma scheduler_loop_exit:
  "scheduler_loop w n s = Some (Returned u, s') \<Longrightarrow> \<not> running s'"
proof (induction n arbitrary: s)
  case 0
  then show ?case by simp
next
  case (Suc n)
  show ?case
  proof (cases "running s")
    case False
    then show ?thesis using Suc.prems by simp
  next
    case True
    obtain r s1 where rp: "run_pending w s = (r, s1)" by (cases "run_pending w s")
    show ?thesis
    proof (cases r)
      case (Raised e)
      then show ?thesis using Suc.prems True rp by simp
    next
      case (Returned x)
      then have "scheduler_loop w n
          (if stop_requested w (trace (emit (EvSleep 60) s1)) then stop_scheduler (emit (EvSleep 60) s1)
           else emit (EvSleep 60) s1) = Some (Returned u, s')"
        using Suc.prems True rp by (simp add: Let_def)
      then show ?thesis by (rule Suc.IH)
    qed
  qed
qed

text \<open>
  Claim C9. \<^verbatim>\<open>run_scheduler\<close> called while the flag is set only logs a warning: the
  flag, the registered jobs and the store are as before and nothing is polled. Called
  with the flag clear, every run that ends leaves the flag clear. An exception of the
  loop body ends the loop at once, and \<^verbatim>\<open>run_scheduler\<close> logs it and clears the
  flag. \<^verbatim>\<open>stop_scheduler\<close> clears the flag, and the loop's next test of the flag
  then ends the loop without another poll; a stop called during a poll cycle ends the
  loop right after that cycle. (\<open>started\<close> is the state in which the loop is entered.)
\<close>

theorem scheduler_running_flag:
  fixes w :: world and s s0 started :: state
  defines "started \<equiv>
     logger INFO ResetSchedulerStarted
       (logger INFO (BatchSchedulerStarted CHECK_INTERVAL_SECONDS)
          (s\<lparr>running := True,
             jobs := jobs s @ [(EverySeconds CHECK_INTERVAL_SECONDS, CheckAndRefresh),
                               (DailyAt ''00:00'', ResetCounts)]\<rparr>))"
  shows "(running s \<longrightarrow> run_scheduler w fuel s = Some (logger WARNING AlreadyRunning s))
       \<and> (\<not> running s \<and> run_scheduler w fuel s = Some s' \<longrightarrow> \<not> running s')
       \<and> (\<not> running s \<and> run_pending_fault w (trace started) = Some e \<longrightarrow>
            run_scheduler w (Suc n) s
              = Some ((logger EXCEPTION (SchedulerRaised e) (emit EvRunPending started))
                        \<lparr>running := False\<rparr>))
       \<and> (running s0 \<and> run_pending_fault w (trace s0) = Some e \<longrightarrow>
            scheduler_loop w (Suc n) s0 = Some (Raised e, emit EvRunPending s0))
       \<and> \<not> running (stop_scheduler s0)
       \<and> scheduler_loop w (Suc n) (stop_scheduler s0) = Some (Returned (), stop_scheduler s0)
       \<and> (running s0 \<and> run_pending w s0 = (Returned (), s1)
            \<and> stop_requested w (trace s1 @ [EvSleep 60]) \<longrightarrow>
            scheduler_loop w (Suc (Suc n)) s0
              = Some (Returned (), stop_scheduler (emit (EvSleep 60) s1)))"
proof -
  have started: "\<not> running s \<Longrightarrow> run_scheduler w k s =
      (case scheduler_loop w k started of
         None \<Rightarrow> None
       | Some (Raised e, s6) \<Rightarrow> Some ((logger EXCEPTION (SchedulerRaised e) s6)\<lparr>running := False\<rparr>)
       | Some (Returned u, s6) \<Rightarrow> Some (s6\<lparr>running := False\<rparr>))" for k
    by (simp add: run_scheduler_def started_def Let_def)
  have rs: "running started" by (simp add: started_def)
  have c1: "running s \<longrightarrow> run_scheduler w fuel s = Some (logger WARNING AlreadyRunning s)"
    by (simp add: run_scheduler_def)
  have c2: "\<not> running s \<and> run_scheduler w fuel s = Some s' \<longrightarrow> \<not> running s'"
    using started[of fuel]
    by (auto split: option.splits outcome.splits prod.splits)
  have c4: "running s0 \<and> run_pending_fault w (trace s0) = Some e \<longrightarrow>
            scheduler_loop w (Suc n) s0 = Some (Raised e, emit EvRunPending s0)" for s0
    by (simp add: run_pending_def Let_def)
  have c3: "\<not> running s \<and> run_pending_fault w (trace started) = Some e \<longrightarrow>
            run_scheduler w (Suc n) s
              = Some ((logger EXCEPTION (SchedulerRaised e) (emit EvRunPending started))
                        \<lparr>running := False\<rparr>)"
    using started[of "Suc n"] c4[of started] rs by simp
  have c5: "\<not> running (stop_scheduler s0)" by (simp add: stop_scheduler_def)
  then have c6: "scheduler_loop w (Suc n) (stop_scheduler s0) = Some (Returned (), stop_scheduler s0)"
    by simp
  have c7: "running s0 \<and> run_pending w s0 = (Returned (), s1)
            \<and> stop_requested w (trace s1 @ [EvSleep 60]) \<longrightarrow>
            scheduler_loop w (Suc (Suc n)) s0
              = Some (Returned (), stop_scheduler (emit (EvSleep 60) s1))"
    by (simp add: stop_scheduler_def Let_def)
  show ?thesis using c1 c2 c3 c4[of s0] c5 c6 c7 by blast
qed

theorem scheduler_running_flag_witness:
  "run_scheduler example_world 7 ((example_state [])\<lparr>running := True\<rparr>)
     = Some (logger WARNING AlreadyRunning ((example_state [])\<lparr>running := True\<rparr>))
   \<and> run_scheduler example_world (Suc (Suc 0)) (example_state [])
     = Some \<lparr>store = [],
             trace = [EvLog INFO (BatchSchedulerStarted 600), EvLog INFO ResetSchedulerStarted,
                      EvRunPending, EvSleep 60, EvLog INFO SchedulerStopped],
             running = False,
             jobs = [(EverySeconds 600, CheckAndRefresh), (DailyAt ''00:00'', ResetCounts)]\<rparr>
   \<and> run_scheduler world_schedule_fault (Suc 0) (example_state [])
     = Some \<lparr>store = [],
             trace = [EvLog INFO (BatchSchedulerStarted 600), EvLog INFO ResetSchedulerStarted,
                      EvRunPending, EvLog EXCEPTION (SchedulerRaised ''schedule error'')],
             running = False,
             jobs = [(EverySeconds 600, CheckAndRefresh), (DailyAt ''00:00'', ResetCounts)]\<rparr>"
proof -
  let ?on = "(example_state [])\<lparr>running := True\<rparr>"
  have on: "running ?on" by simp
  have off: "\<not> running (example_state [])" by (simp add: example_defs)
  have a: "run_scheduler example_world 7 ?on = Some (logger WARNING AlreadyRunning ?on)"
    using scheduler_running_flag[of ?on example_world 7] on by blast
  have fault: "run_pending_fault world_schedule_fault tr = Some ''schedule error''" for tr
    by (simp add: world_schedule_fault_def example_defs)
  have b: "run_scheduler world_schedule_fault (Suc 0) (example_state [])
     = Some \<lparr>store = [],
             trace = [EvLog INFO (BatchSchedulerStarted 600), EvLog INFO ResetSchedulerStarted,
                      EvRunPending, EvLog EXCEPTION (SchedulerRaised ''schedule error'')],
             running = False,
             jobs = [(EverySeconds 600, CheckAndRefresh), (DailyAt ''00:00'', ResetCounts)]\<rparr>"
    using scheduler_running_flag[where s = "example_state []" and w = world_schedule_fault
        and e = "''schedule error''" and n = 0] off fault
    by (simp add: example_defs CHECK_INTERVAL_SECONDS_def logger_def emit_def)
  have c: "run_scheduler example_world (Suc (Suc 0)) (example_state [])
     = Some \<lparr>store = [],
             trace = [EvLog INFO (BatchSchedulerStarted 600), EvLog INFO ResetSchedulerStarted,
                      EvRunPending, EvSleep 60, EvLog INFO SchedulerStopped],
             running = False,
             jobs = [(EverySeconds 600, CheckAndRefresh), (DailyAt ''00:00'', ResetCounts)]\<rparr>"
    by (simp add: run_scheduler_def run_pending_def stop_scheduler_def example_defs
        CHECK_INTERVAL_SECONDS_def logger_def emit_def Let_def)
  show ?thesis using a b c by simp
qed

subsection \<open>What the batch pass selects (claim C5)\<close>

lemma filter_sub:
  assumes "\<And>e. P e \<Longrightarrow> Q e" and "filter Q xs = filter Q ys"
  shows "filter P xs = filter P ys"
proof -
  have "filter P zs = filter P (filter Q zs)" for zs
    using assms(1) by (induction zs) auto
  then show ?thesis using assms(2) by metis
qed

lemma expiring_is_selection: "is_expiring_query e \<Longrightarrow> is_selection e"
  by (erule is_expiring_query.elims) simp

lemma submit_is_selection: "is_submit e \<Longrightarrow> is_selection e"
  by (erule is_submit.elims) simp

lemma cache_try_no_selection:
  "filter is_selection (trace (snd (cache_put_try w a s))) = filter is_selection (trace s)"
  "filter is_selection (trace (snd (cache_remove_try w a s))) = filter is_selection (trace s)"
  by (simp_all add: cache_put_try_def cache_remove_try_def Let_def split: outcome.splits)

lemma transitions_no_selection:
  "filter is_selection (trace (snd (enable_account w a s))) = filter is_selection (trace s)"
  "filter is_selection (trace (snd (disable_account w a s))) = filter is_selection (trace s)"
proof -
  show "filter is_selection (trace (snd (enable_account w a s))) = filter is_selection (trace s)"
    using cache_try_no_selection(1)[of w "a\<lparr>enable := 1\<rparr>" "commit [a\<lparr>enable := 1\<rparr>] s"]
    by (auto simp: enable_account_def Let_def split: prod.splits outcome.splits)
  show "filter is_selection (trace (snd (disable_account w a s))) = filter is_selection (trace s)"
    using cache_try_no_selection(2)[of w "a\<lparr>enable := 0\<rparr>" "commit [a\<lparr>enable := 0\<rparr>] s"]
    by (auto simp: disable_account_def Let_def split: prod.splits outcome.splits)
qed

lemma steps_no_selection:
  "filter is_selection (trace (snd (snd (signin_step w a s)))) = filter is_selection (trace s)"
  "filter is_selection (trace (snd (snd (auth_step w a s)))) = filter is_selection (trace s)"
  "filter is_selection (trace (snd (success_commit w a u t s))) = filter is_selection (trace s)"
  by (simp_all add: signin_step_def auth_step_def success_commit_eq Let_def split: outcome.splits)

lemma refresh_cookies_try_no_selection:
  "filter is_selection (trace (snd (snd (refresh_cookies_try w a c s)))) = filter is_selection (trace s)"
proof (cases "refresh_silent_cookies w (trace s) c")
  case (Raised e)
  then show ?thesis by (simp add: refresh_cookies_try_def Let_def)
next
  case (Returned rep)
  obtain ok u t where rep: "rep = (ok, u, t)" by (cases rep)
  show ?thesis
  proof (cases "\<not> ok \<or> \<not> truthy u \<or> \<not> truthy t")
    case True
    then show ?thesis using Returned rep by (auto simp: refresh_cookies_try_def Let_def)
  next
    case False
    obtain a7 s6 where sc: "success_commit w a u t (emit (EvRefresh c) s) = (a7, s6)"
      by (cases "success_commit w a u t (emit (EvRefresh c) s)")
    obtain r1 a8 s7 where si: "signin_step w a7 s6 = (r1, a8, s7)"
      by (cases "signin_step w a7 s6")
    obtain r2 a9 s8 where au: "auth_step w a8 s7 = (r2, a9, s8)"
      by (cases "auth_step w a8 s7")
    have t6: "filter is_selection (trace s6) = filter is_selection (trace s)"
      using steps_no_selection(3)[of w a u t "emit (EvRefresh c) s"] sc by simp
    have t7: "filter is_selection (trace s7) = filter is_selection (trace s)"
      using steps_no_selection(1)[of w a7 s6] si t6 by simp
    have t8: "filter is_selection (trace s8) = filter is_selection (trace s)"
      using steps_no_selection(2)[of w a8 s7] au t7 by simp
    show ?thesis using False Returned rep sc si au t7 t8
      by (cases r1) (auto simp: refresh_cookies_try_def Let_def)
  qed
qed

lemma refresh_cookies_no_selection:
  "filter is_selection (trace (snd (snd (refresh_cookies w a s)))) = filter is_selection (trace s)"
proof (cases "\<exists>cs c. silent_cookies a = Some cs \<and> cs \<noteq> [] \<and> json_loads w cs = Loaded c \<and> truthy c")
  case False
  then show ?thesis
    by (auto simp: refresh_cookies_def parse_cookies_to_dict_def
        split: option.splits loaded.splits)
next
  case True
  then obtain cs c where cs: "silent_cookies a = Some cs" "cs \<noteq> []"
    and c: "json_loads w cs = Loaded c" "truthy c"
    by blast
  obtain r a' s' where t: "refresh_cookies_try w a c s = (r, a', s')"
    by (cases "refresh_cookies_try w a c s")
  have "filter is_selection (trace s') = filter is_selection (trace s)"
    using refresh_cookies_try_no_selection[of w a c s] t by simp
  then show ?thesis using cs c t
    by (cases r) (auto simp: refresh_cookies_def parse_cookies_to_dict_def)
qed

lemma unit_no_selection:
  "filter is_selection (trace (refresh_single_account w i s)) = filter is_selection (trace s)"
proof (cases "find (\<lambda>r. token_id r = i) (store s)")
  case None
  then show ?thesis by (simp add: refresh_single_account_def Let_def)
next
  case (Some a)
  let ?s1 = "emit (EvQuery (ById i)) (emit EvSessionOpen s)"
  obtain r a' s' where res: "refresh_cookies w a ?s1 = (r, a', s')"
    by (cases "refresh_cookies w a ?s1")
  have s': "filter is_selection (trace s') = filter is_selection (trace s)"
    using refresh_cookies_no_selection[of w a ?s1] res by simp
  show ?thesis
  proof (cases r)
    case (Raised e)
    then show ?thesis using Some res s' by (simp add: refresh_single_account_def Let_def)
  next
    case (Returned success)
    then show ?thesis
      using Some res s' transitions_no_selection(1)[of w a' s']
        transitions_no_selection(2)[of w a' s']
      by (auto simp: refresh_single_account_def Let_def split: prod.splits)
  qed
qed

lemma units_submitted:
  "filter is_submit
     (trace (fold (\<lambda>a st. refresh_single_account w (token_id a) (emit (EvSubmit (token_id a)) st))
               accounts s))
     = filter is_submit (trace s) @ map (\<lambda>a. EvSubmit (token_id a)) accounts"
proof (induction accounts arbitrary: s)
  case Nil
  then show ?case by simp
next
  case (Cons a accounts)
  have "filter is_submit (trace (refresh_single_account w (token_id a) (emit (EvSubmit (token_id a)) s)))
          = filter is_submit (trace (emit (EvSubmit (token_id a)) s))"
    by (rule filter_sub[OF submit_is_selection unit_no_selection])
  then show ?case using Cons.IH by simp
qed

lemma units_no_expiring:
  "filter is_expiring_query
     (trace (fold (\<lambda>a st. refresh_single_account w (token_id a) (emit (EvSubmit (token_id a)) st))
               accounts s))
     = filter is_expiring_query (trace s)"
proof (induction accounts arbitrary: s)
  case Nil
  then show ?case by simp
next
  case (Cons a accounts)
  have "filter is_expiring_query
          (trace (refresh_single_account w (token_id a) (emit (EvSubmit (token_id a)) s)))
          = filter is_expiring_query (trace (emit (EvSubmit (token_id a)) s))"
    by (rule filter_sub[OF expiring_is_selection unit_no_selection])
  then show ?case using Cons.IH by simp
qed

lemma batch_no_expiring:
  "filter is_expiring_query (trace (check_and_refresh_accounts w s))
     = filter is_expiring_query (trace s)"
  by (simp add: check_and_refresh_accounts_def Let_def units_no_expiring)

lemma cache_put_handled_no_expiring:
  "filter is_expiring_query (trace (cache_put_handled w a s)) = filter is_expiring_query (trace s)"
proof -
  have "filter is_expiring_query (trace (snd (cache_put_try w a s)))
          = filter is_expiring_query (trace s)"
    by (rule filter_sub[OF expiring_is_selection cache_try_no_selection(1)])
  then show ?thesis
    by (auto simp: cache_put_handled_def split: prod.splits outcome.splits)
qed

lemma reset_loop_no_expiring:
  "filter is_expiring_query (trace (snd (snd (reset_loop w accounts n dirty s))))
     = filter is_expiring_query (trace s)"
  by (induction accounts arbitrary: n dirty s)
     (simp_all add: Let_def cache_put_handled_no_expiring)

lemma reset_no_expiring:
  "filter is_expiring_query (trace (reset_account_counts w s)) = filter is_expiring_query (trace s)"
proof -
  let ?s1 = "emit (EvQuery EnabledLive) (emit EvSessionOpen (logger INFO ResetStart s))"
  let ?accounts = "filter (\<lambda>r. enable r = 1 \<and> deleted_at r = None) (store s)"
  obtain n dirty s2 where l: "reset_loop w ?accounts 0 [] ?s1 = (n, dirty, s2)"
    by (cases "reset_loop w ?accounts 0 [] ?s1")
  have "filter is_expiring_query (trace s2) = filter is_expiring_query (trace ?s1)"
    using reset_loop_no_expiring[of w ?accounts 0 "[]" ?s1] l by simp
  then show ?thesis using l
    by (simp add: reset_account_counts_def Let_def)
qed

lemma jobs_no_expiring:
  "filter is_expiring_query (trace (fold (run_job w) js s)) = filter is_expiring_query (trace s)"
proof (induction js arbitrary: s)
  case Nil
  then show ?case by simp
next
  case (Cons j js)
  have "filter is_expiring_query (trace (run_job w j s)) = filter is_expiring_query (trace s)"
    by (simp add: run_job_def batch_no_expiring reset_no_expiring split: callee.splits)
  then show ?case using Cons.IH by simp
qed

lemma scheduler_loop_no_expiring:
  "scheduler_loop w n s = Some (r, s') \<Longrightarrow>
   filter is_expiring_query (trace s') = filter is_expiring_query (trace s)"
proof (induction n arbitrary: s)
  case 0
  then show ?case by simp
next
  case (Suc n)
  show ?case
  proof (cases "running s")
    case False
    then show ?thesis using Suc.prems by simp
  next
    case True
    obtain r1 s1 where rp: "run_pending w s = (r1, s1)" by (cases "run_pending w s")
    have s1: "filter is_expiring_query (trace s1) = filter is_expiring_query (trace s)"
      using rp by (auto simp: run_pending_def Let_def jobs_no_expiring split: option.splits)
    show ?thesis
    proof (cases r1)
      case (Raised e)
      then show ?thesis using Suc.prems True rp s1 by simp
    next
      case (Returned x)
      let ?s3 = "if stop_requested w (trace (emit (EvSleep 60) s1))
                 then stop_scheduler (emit (EvSleep 60) s1) else emit (EvSleep 60) s1"
      have "scheduler_loop w n ?s3 = Some (r, s')"
        using Suc.prems True rp Returned by (simp add: Let_def)
      then have "filter is_expiring_query (trace s') = filter is_expiring_query (trace ?s3)"
        by (rule Suc.IH)
      then show ?thesis using s1 by (simp add: stop_scheduler_def)
    qed
  qed
qed

lemma run_scheduler_no_expiring:
  "run_scheduler w fuel s = Some s' \<Longrightarrow>
   filter is_expiring_query (trace s') = filter is_expiring_query (trace s)"
  by (auto simp: run_scheduler_def Let_def split: if_splits option.splits prod.splits outcome.splits
      dest!: scheduler_loop_no_expiring)

text \<open>
  Claim C5. The batch pass submits one unit of work for every row whose soft-delete
  marker is null, in the order of the table, and for no other row: neither the enable
  flag nor the expiry enters the selection. \<^verbatim>\<open>find_expiring_accounts\<close> selects the
  enabled live rows whose credential expiry lies between now and now plus seven days,
  and issues the query of that window; no such query is issued by the batch pass, by
  the daily reset or by a run of the scheduler, which call nothing else.
\<close>

theorem batch_selects_every_live_account:
  "filter is_submit (trace (check_and_refresh_accounts w s))
     = filter is_submit (trace s)
       @ map (\<lambda>a. EvSubmit (token_id a)) (filter (\<lambda>r. deleted_at r = None) (store s))
   \<and> filter is_expiring_query (trace (check_and_refresh_accounts w s))
       = filter is_expiring_query (trace s)
   \<and> filter is_expiring_query (trace (reset_account_counts w s))
       = filter is_expiring_query (trace s)
   \<and> (run_scheduler w fuel s = Some s' \<longrightarrow>
        filter is_expiring_query (trace s') = filter is_expiring_query (trace s))
   \<and> fst (find_expiring_accounts w s)
       = filter (\<lambda>r. enable r = 1 \<and> deleted_at r = None \<and>
                   (case cookies_expires r of
                      None \<Rightarrow> False
                    | Some e \<Rightarrow> e \<le> now w (trace s) + timedelta_days 7 \<and> e \<ge> now w (trace s)))
           (store s)
   \<and> filter is_expiring_query (trace (snd (find_expiring_accounts w s)))
       = filter is_expiring_query (trace s)
         @ [EvQuery (Expiring (now w (trace s)) (now w (trace s) + timedelta_days 7))]"
proof -
  have sub: "filter is_submit (trace (check_and_refresh_accounts w s))
     = filter is_submit (trace s)
       @ map (\<lambda>a. EvSubmit (token_id a)) (filter (\<lambda>r. deleted_at r = None) (store s))"
    by (simp add: check_and_refresh_accounts_def Let_def units_submitted)
  have fe: "fst (find_expiring_accounts w s)
       = filter (\<lambda>r. enable r = 1 \<and> deleted_at r = None \<and>
                   (case cookies_expires r of
                      None \<Rightarrow> False
                    | Some e \<Rightarrow> e \<le> now w (trace s) + timedelta_days 7 \<and> e \<ge> now w (trace s)))
           (store s)"
    "filter is_expiring_query (trace (snd (find_expiring_accounts w s)))
       = filter is_expiring_query (trace s)
         @ [EvQuery (Expiring (now w (trace s)) (now w (trace s) + timedelta_days 7))]"
    by (simp_all add: find_expiring_accounts_def datetime_now_eq Let_def EXPIRY_WARNING_DAYS_def)
  show ?thesis
    using sub fe batch_no_expiring[of w s] reset_no_expiring[of w s] run_scheduler_no_expiring[of w fuel s s']
    by blast
qed

theorem batch_selects_witness:
  "filter is_submit (trace (check_and_refresh_accounts example_world
       (example_state [example_account\<lparr>enable := 0, cookies_expires := Some 9000000000000\<rparr>,
                       deleted_account\<lparr>token_id := 2\<rparr>,
                       example_account\<lparr>token_id := 3\<rparr>])))
     = [EvSubmit 1, EvSubmit 3]
   \<and> fst (find_expiring_accounts example_world
       (example_state [example_account\<lparr>enable := 0, cookies_expires := Some 9000000000000\<rparr>,
                       deleted_account\<lparr>token_id := 2\<rparr>,
                       example_account\<lparr>token_id := 3\<rparr>])) = []
   \<and> run_scheduler example_world (Suc (Suc 0)) (example_state [example_account])
       = Some \<lparr>store = [example_account],
               trace = [EvLog INFO (BatchSchedulerStarted 600), EvLog INFO ResetSchedulerStarted,
                        EvRunPending, EvSleep 60, EvLog INFO SchedulerStopped],
               running = False,
               jobs = [(EverySeconds 600, CheckAndRefresh), (DailyAt ''00:00'', ResetCounts)]\<rparr>"
proof -
  let ?s = "example_state [example_account\<lparr>enable := 0, cookies_expires := Some 9000000000000\<rparr>,
                          deleted_account\<lparr>token_id := 2\<rparr>,
                          example_account\<lparr>token_id := 3\<rparr>]"
  let ?X = "\<lparr>store = [example_account],
             trace = [EvLog INFO (BatchSchedulerStarted 600), EvLog INFO ResetSchedulerStarted,
                      EvRunPending, EvSleep 60, EvLog INFO SchedulerStopped],
             running = False,
             jobs = [(EverySeconds 600, CheckAndRefresh), (DailyAt ''00:00'', ResetCounts)]\<rparr>"
  have run: "run_scheduler example_world (Suc (Suc 0)) (example_state [example_account]) = Some ?X"
    by (simp add: run_scheduler_def run_pending_def stop_scheduler_def example_world_def
        example_state_def CHECK_INTERVAL_SECONDS_def logger_def emit_def Let_def)
  have "filter is_expiring_query (trace ?X)
          = filter is_expiring_query (trace (example_state [example_account]))"
    using batch_selects_every_live_account[of example_world "example_state [example_account]"
        "Suc (Suc 0)" ?X] run by blast
  moreover have "filter is_submit (trace (check_and_refresh_accounts example_world ?s))
      = [EvSubmit 1, EvSubmit 3]
    \<and> fst (find_expiring_accounts example_world ?s) = []"
    using batch_selects_every_live_account[of example_world ?s 0 ?s]
    by (simp add: example_defs deleted_account_def)
  ultimately show ?thesis using run by simp
qed

subsection \<open>The daily reset (claim C7)\<close>

lemma cache_put_handled_store [simp]: "store (cache_put_handled w a s) = store s"
proof -
  obtain r s2 where c: "cache_put_try w a s = (r, s2)" by (cases "cache_put_try w a s")
  then have "store s2 = store s" using store_cache_put_try[of w a s] by simp
  then show ?thesis using c by (cases r) (simp_all add: cache_put_handled_def)
qed

lemma cache_put_handled_no_commit:
  "filter is_commit (trace (cache_put_handled w a s)) = filter is_commit (trace s)"
  by (simp add: cache_put_handled_def cache_put_try_def Let_def split: outcome.splits)

text \<open>
  One mirroring attempt, by the answers of the collaborators: the seven ways through
  lines 213-220.
\<close>

lemma cache_put_handled_cases:
  "(test_redis_connection w (trace s) = Returned False \<longrightarrow>
      cache_put_handled w b s = emit EvProbe s)
 \<and> (test_redis_connection w (trace s) = Raised e \<longrightarrow>
      cache_put_handled w b s = logger ERROR (CacheUpdateFailed e) (emit EvProbe s))
 \<and> (test_redis_connection w (trace s) = Returned True \<and> token_to_dict w b = Raised e \<longrightarrow>
      cache_put_handled w b s = logger ERROR (CacheUpdateFailed e) (emit EvProbe s))
 \<and> (test_redis_connection w (trace s) = Returned True \<and> token_to_dict w b = Returned d
      \<and> cache_account w (trace s @ [EvProbe]) (token_id b) d False = Raised e \<longrightarrow>
      cache_put_handled w b s
        = logger ERROR (CacheUpdateFailed e)
            (emit (EvCachePut (token_id b) d False) (emit EvProbe s)))
 \<and> (test_redis_connection w (trace s) = Returned True \<and> token_to_dict w b = Returned d
      \<and> cache_account w (trace s @ [EvProbe]) (token_id b) d False = Returned ()
      \<and> account_type b \<noteq> JStr ''paid'' \<longrightarrow>
      cache_put_handled w b s = emit (EvCachePut (token_id b) d False) (emit EvProbe s))
 \<and> (test_redis_connection w (trace s) = Returned True \<and> token_to_dict w b = Returned d
      \<and> cache_account w (trace s @ [EvProbe]) (token_id b) d False = Returned ()
      \<and> account_type b = JStr ''paid''
      \<and> cache_account w (trace s @ [EvProbe, EvCachePut (token_id b) d False]) (token_id b) d True
          = Raised e \<longrightarrow>
      cache_put_handled w b s
        = logger ERROR (CacheUpdateFailed e)
            (emit (EvCachePut (token_id b) d True)
               (emit (EvCachePut (token_id b) d False) (emit EvProbe s))))
 \<and> (test_redis_connection w (trace s) = Returned True \<and> token_to_dict w b = Returned d
      \<and> cache_account w (trace s @ [EvProbe]) (token_id b) d False = Returned ()
      \<and> account_type b = JStr ''paid''
      \<and> cache_account w (trace s @ [EvProbe, EvCachePut (token_id b) d False]) (token_id b) d True
          = Returned () \<longrightarrow>
      cache_put_handled w b s
        = emit (EvCachePut (token_id b) d True)
            (emit (EvCachePut (token_id b) d False) (emit EvProbe s)))"
  by (simp add: cache_put_handled_def cache_put_try_def Let_def)

lemma reset_loop_eq:
  "reset_loop w accounts n dirty s =
     (n + length (filter (\<lambda>a. count a > 0) accounts),
      dirty @ map (\<lambda>a. a\<lparr>count := 0\<rparr>) (filter (\<lambda>a. count a > 0) accounts),
      fold (\<lambda>a. cache_put_handled w (a\<lparr>count := 0\<rparr>)) (filter (\<lambda>a. count a > 0) accounts) s)"
  by (induction accounts arbitrary: n dirty s) (simp_all add: Let_def)

lemma fold_cache_put_handled:
  "store (fold (\<lambda>a. cache_put_handled w (a\<lparr>count := 0\<rparr>)) xs s) = store s
 \<and> filter is_commit (trace (fold (\<lambda>a. cache_put_handled w (a\<lparr>count := 0\<rparr>)) xs s))
     = filter is_commit (trace s)"
  by (induction xs arbitrary: s) (simp_all add: cache_put_handled_no_commit)

lemma find_absent:
  "i \<notin> token_id ` set xs \<Longrightarrow> (\<And>x. token_id (g x) = token_id x) \<Longrightarrow>
   find (\<lambda>obj. token_id obj = i) (map g (filter P xs)) = None"
  by (induction xs) auto

lemma find_map_filter:
  assumes "distinct (map token_id rows)" "r \<in> set rows" "\<And>x. token_id (g x) = token_id x"
  shows "find (\<lambda>obj. token_id obj = token_id r) (map g (filter P rows))
           = (if P r then Some (g r) else None)"
  using assms(1,2)
proof (induction rows)
  case Nil
  then show ?case by simp
next
  case (Cons x xs)
  show ?case
  proof (cases "r = x")
    case True
    have "token_id x \<notin> token_id ` set xs" using Cons.prems(1) by simp
    from find_absent[OF this assms(3), where P = P] show ?thesis using True assms(3) by simp
  next
    case False
    then have "r \<in> set xs" using Cons.prems(2) by simp
    moreover from this have "token_id x \<noteq> token_id r" using Cons.prems(1) by auto
    ultimately show ?thesis using Cons assms(3) by simp
  qed
qed

lemma write_back_map_filter:
  assumes "distinct (map token_id rows)" "\<And>x. token_id (g x) = token_id x"
  shows "write_back (map g (filter P rows)) rows = map (\<lambda>r. if P r then g r else r) rows"
  unfolding write_back_def
  by (rule map_cong[OF refl]) (simp add: find_map_filter[OF assms(1) _ assms(2)])

text \<open>What a write-back of zeroed objects does to a row, whatever the ids of the table.\<close>

lemma write_back_zeroed_row:
  fixes xs :: "Token list" and r r' :: Token
  defines "r' \<equiv> (case find (\<lambda>obj. token_id obj = token_id r) (map (\<lambda>a. a\<lparr>count := 0\<rparr>) xs) of
                    None \<Rightarrow> r | Some obj \<Rightarrow> obj)"
  shows "token_id r' = token_id r"
    and "r \<in> set xs \<Longrightarrow> count r' = 0"
    and "token_id r \<notin> token_id ` set xs \<Longrightarrow> r' = r"
proof -
  show "token_id r' = token_id r"
    unfolding r'_def by (auto split: option.splits dest: find_token_id[where i = "token_id r"])
  show "count r' = 0" if "r \<in> set xs"
  proof (cases "find (\<lambda>obj. token_id obj = token_id r) (map (\<lambda>a. a\<lparr>count := 0\<rparr>) xs)")
    case None
    then show ?thesis using that by (auto simp: find_None_iff)
  next
    case (Some obj)
    then have "obj \<in> set (map (\<lambda>a. a\<lparr>count := 0\<rparr>) xs)"
      by (auto simp: find_Some_iff intro: nth_mem)
    then show ?thesis using Some by (auto simp: r'_def)
  qed
  show "r' = r" if "token_id r \<notin> token_id ` set xs"
  proof -
    have "find (\<lambda>obj. token_id obj = token_id r) (map (\<lambda>a. a\<lparr>count := 0\<rparr>) xs) = None"
      using that by (fastforce simp: find_None_iff image_iff)
    then show ?thesis by (simp add: r'_def)
  qed
qed

text \<open>
  Claim C7 as stated fails in its cache part: when the liveness probe answers false,
  the count of the account is still reset, and no cache write is made for it.
\<close>

theorem reset_without_mirror_counterexample:
  "enable example_account = 1 \<and> deleted_at example_account = None \<and> count example_account = 5
   \<and> map count (store (reset_account_counts world_cache_offline (example_state [example_account])))
       = [0]
   \<and> filter is_cache_op
        (trace (reset_account_counts world_cache_offline (example_state [example_account]))) = []"
  by (simp add: reset_account_counts_def cache_put_handled_def cache_put_try_def commit_def
      emit_def logger_def write_back_def Let_def world_cache_offline_def example_defs)

text \<open>
  Claim C7, amended. The daily reset selects the rows with \<open>enable = 1\<close> and a null
  soft-delete marker; those of them with a count above 0 are the affected accounts
  (\<open>affected\<close>). If no row is selected it logs that and commits nothing. Otherwise it
  makes, for each affected account in turn and for no other account, one mirroring
  attempt on the object with the count already 0, and after all attempts one commit,
  which writes the zeroed objects of the affected accounts and nothing else. So every
  affected account has count 0 afterwards, every row keeps its id, and every account
  with an id other than those of the affected accounts is untouched; in a table whose
  ids are unique the affected rows change in their count only.

  A mirroring attempt probes the cache first. When the probe answers false, nothing is
  written and nothing is logged. When it answers true, the snapshot of the account is
  put into the free partition and then, when the account type is \<^verbatim>\<open>'paid'\<close>, into
  the paid partition. When the probe, the snapshot or a put raises, the attempt ends
  there and the exception is logged. An attempt never changes the store, so the reset
  of the account stands in every case.
\<close>

theorem reset_zeroes_enabled_live_counts:
  fixes w :: world and s s1 :: state and affected :: "Token list"
  defines "affected \<equiv>
     filter (\<lambda>r. enable r = 1 \<and> deleted_at r = None \<and> count r > 0) (store s)"
    and "s1 \<equiv> emit (EvQuery EnabledLive) (emit EvSessionOpen (logger INFO ResetStart s))"
  shows "reset_account_counts w s
           = (if filter (\<lambda>r. enable r = 1 \<and> deleted_at r = None) (store s) = []
              then emit EvSessionClose (logger INFO NothingToReset s1)
              else emit EvSessionClose
                     (logger INFO (ResetDone (length affected))
                        (commit (map (\<lambda>a. a\<lparr>count := 0\<rparr>) affected)
                           (fold (\<lambda>a. cache_put_handled w (a\<lparr>count := 0\<rparr>)) affected s1))))
       \<and> store (reset_account_counts w s)
           = write_back (map (\<lambda>a. a\<lparr>count := 0\<rparr>) affected) (store s)
       \<and> filter is_commit (trace (reset_account_counts w s))
           = filter is_commit (trace s)
             @ (if filter (\<lambda>r. enable r = 1 \<and> deleted_at r = None) (store s) = [] then []
                else [EvCommit (map token_id affected)])
       \<and> map token_id (store (reset_account_counts w s)) = map token_id (store s)
       \<and> (\<forall>k < length (store s).
             (store s ! k \<in> set affected \<longrightarrow> count (store (reset_account_counts w s) ! k) = 0)
           \<and> (token_id (store s ! k) \<notin> token_id ` set affected \<longrightarrow>
                store (reset_account_counts w s) ! k = store s ! k))
       \<and> (distinct (map token_id (store s)) \<longrightarrow>
            store (reset_account_counts w s)
              = map (\<lambda>r. if enable r = 1 \<and> deleted_at r = None \<and> count r > 0
                          then r\<lparr>count := 0\<rparr> else r) (store s))
       \<and> store (cache_put_handled w b s0) = store s0
       \<and> (test_redis_connection w (trace s0) = Returned False \<longrightarrow>
            cache_put_handled w b s0 = emit EvProbe s0)
       \<and> (test_redis_connection w (trace s0) = Raised e \<longrightarrow>
            cache_put_handled w b s0 = logger ERROR (CacheUpdateFailed e) (emit EvProbe s0))
       \<and> (test_redis_connection w (trace s0) = Returned True \<and> token_to_dict w b = Raised e \<longrightarrow>
            cache_put_handled w b s0 = logger ERROR (CacheUpdateFailed e) (emit EvProbe s0))
       \<and> (test_redis_connection w (trace s0) = Returned True \<and> token_to_dict w b = Returned d
            \<and> cache_account w (trace s0 @ [EvProbe]) (token_id b) d False = Raised e \<longrightarrow>
            cache_put_handled w b s0
              = logger ERROR (CacheUpdateFailed e)
                  (emit (EvCachePut (token_id b) d False) (emit EvProbe s0)))
       \<and> (test_redis_connection w (trace s0) = Returned True \<and> token_to_dict w b = Returned d
            \<and> cache_account w (trace s0 @ [EvProbe]) (token_id b) d False = Returned ()
            \<and> account_type b \<noteq> JStr ''paid'' \<longrightarrow>
            cache_put_handled w b s0 = emit (EvCachePut (token_id b) d False) (emit EvProbe s0))
       \<and> (test_redis_connection w (trace s0) = Returned True \<and> token_to_dict w b = Returned d
            \<and> cache_account w (trace s0 @ [EvProbe]) (token_id b) d False = Returned ()
            \<and> account_type b = JStr ''paid''
            \<and> cache_account w (trace s0 @ [EvProbe, EvCachePut (token_id b) d False])
                  (token_id b) d True = Raised e \<longrightarrow>
            cache_put_handled w b s0
              = logger ERROR (CacheUpdateFailed e)
                  (emit (EvCachePut (token_id b) d True)
                     (emit (EvCachePut (token_id b) d False) (emit EvProbe s0))))
       \<and> (test_redis_connection w (trace s0) = Returned True \<and> token_to_dict w b = Returned d
            \<and> cache_account w (trace s0 @ [EvProbe]) (token_id b) d False = Returned ()
            \<and> account_type b = JStr ''paid''
            \<and> cache_account w (trace s0 @ [EvProbe, EvCachePut (token_id b) d False])
                  (token_id b) d True = Returned () \<longrightarrow>
            cache_put_handled w b s0
              = emit (EvCachePut (token_id b) d True)
                  (emit (EvCachePut (token_id b) d False) (emit EvProbe s0)))"
proof -
  let ?sel = "\<lambda>r. enable r = 1 \<and> deleted_at r = None"
  let ?accounts = "filter ?sel (store s)"
  let ?zero = "\<lambda>a::Token. a\<lparr>count := 0\<rparr>"
  let ?R = "reset_account_counts w s"
  have aff: "filter (\<lambda>a. count a > 0) ?accounts = affected"
    by (auto simp: affected_def intro!: filter_cong)
  have none: "?accounts = [] \<Longrightarrow> affected = []"
    using aff by (metis filter.simps(1))
  have eq: "?R = (if ?accounts = [] then emit EvSessionClose (logger INFO NothingToReset s1)
              else emit EvSessionClose
                     (logger INFO (ResetDone (length affected))
                        (commit (map ?zero affected)
                           (fold (\<lambda>a. cache_put_handled w (?zero a)) affected s1))))"
    using aff by (simp add: reset_account_counts_def reset_loop_eq Let_def s1_def)
  note fo = fold_cache_put_handled[of w affected s1]
  have st: "store ?R = write_back (map ?zero affected) (store s)"
  proof (cases "?accounts = []")
    case True
    then show ?thesis using eq none by (simp add: s1_def write_back_def)
  next
    case False
    then show ?thesis using eq fo by (simp add: s1_def)
  qed
  have cm: "filter is_commit (trace ?R)
           = filter is_commit (trace s)
             @ (if ?accounts = [] then [] else [EvCommit (map token_id affected)])"
    using eq fo by (simp add: s1_def comp_def)
  have row: "store ?R ! k
      = (case find (\<lambda>obj. token_id obj = token_id (store s ! k)) (map ?zero affected) of
           None \<Rightarrow> store s ! k | Some obj \<Rightarrow> obj)" if "k < length (store s)" for k
    using that by (simp add: st write_back_def)
  have ids: "map token_id (store ?R) = map token_id (store s)"
    unfolding st write_back_def
    by (simp add: comp_def write_back_zeroed_row(1) cong: map_cong)
  have rows: "\<forall>k < length (store s).
             (store s ! k \<in> set affected \<longrightarrow> count (store ?R ! k) = 0)
           \<and> (token_id (store s ! k) \<notin> token_id ` set affected \<longrightarrow> store ?R ! k = store s ! k)"
    using row write_back_zeroed_row(2,3)[of _ affected] by simp
  have crisp: "distinct (map token_id (store s)) \<longrightarrow>
            store ?R = map (\<lambda>r. if enable r = 1 \<and> deleted_at r = None \<and> count r > 0
                          then r\<lparr>count := 0\<rparr> else r) (store s)"
    unfolding st affected_def by (auto intro!: write_back_map_filter)
  show ?thesis
    using eq st cm ids rows crisp cache_put_handled_store[of w b s0]
      cache_put_handled_cases[of w s0 b e d]
    by (simp only: simp_thms)
qed

theorem reset_zeroes_witness:
  "map count (store (reset_account_counts example_world
      (example_state [example_account\<lparr>account_type := JStr ''paid''\<rparr>,
                      example_account\<lparr>token_id := 2, enable := 0\<rparr>,
                      deleted_account\<lparr>token_id := 3, enable := 1\<rparr>,
                      example_account\<lparr>token_id := 4, count := 0\<rparr>]))) = [0, 5, 5, 0]
   \<and> filter is_commit (trace (reset_account_counts example_world
      (example_state [example_account\<lparr>account_type := JStr ''paid''\<rparr>,
                      example_account\<lparr>token_id := 2, enable := 0\<rparr>,
                      deleted_account\<lparr>token_id := 3, enable := 1\<rparr>,
                      example_account\<lparr>token_id := 4, count := 0\<rparr>]))) = [EvCommit [1]]
   \<and> filter is_cache_op (trace (reset_account_counts example_world
      (example_state [example_account\<lparr>account_type := JStr ''paid''\<rparr>,
                      example_account\<lparr>token_id := 2, enable := 0\<rparr>,
                      deleted_account\<lparr>token_id := 3, enable := 1\<rparr>,
                      example_account\<lparr>token_id := 4, count := 0\<rparr>])))
       = [EvCachePut 1 (JObj [(''id'', JInt 1), (''count'', JInt 0)]) False,
          EvCachePut 1 (JObj [(''id'', JInt 1), (''count'', JInt 0)]) True]
   \<and> cache_put_handled world_cache_offline example_account (example_state [example_account])
       = emit EvProbe (example_state [example_account])
   \<and> cache_put_handled world_cache_down example_account (example_state [example_account])
       = logger ERROR (CacheUpdateFailed ''connection lost'')
           (emit (EvCachePut 1 (JObj [(''id'', JInt 1), (''count'', JInt 5)]) False)
              (emit EvProbe (example_state [example_account])))
   \<and> reset_account_counts world_cache_offline (example_state [example_account])
       = \<lparr>store = [example_account\<lparr>count := 0\<rparr>],
          trace = [EvLog INFO ResetStart, EvSessionOpen, EvQuery EnabledLive, EvProbe,
                   EvCommit [1], EvLog INFO (ResetDone 1), EvSessionClose],
          running = False, jobs = []\<rparr>"
proof -
  let ?s = "example_state [example_account\<lparr>account_type := JStr ''paid''\<rparr>,
                      example_account\<lparr>token_id := 2, enable := 0\<rparr>,
                      deleted_account\<lparr>token_id := 3, enable := 1\<rparr>,
                      example_account\<lparr>token_id := 4, count := 0\<rparr>]"
  let ?d = "JObj [(''id'', JInt 1), (''count'', JInt 5)]"
  have ids: "distinct (map token_id (store ?s))"
    by (simp add: example_defs deleted_account_def)
  have off: "test_redis_connection world_cache_offline (trace (example_state [example_account]))
               = Returned False"
    by (simp add: world_cache_offline_def example_world_def)
  have down: "test_redis_connection world_cache_down (trace (example_state [example_account]))
                = Returned True"
    "token_to_dict world_cache_down example_account = Returned ?d"
    "cache_account world_cache_down (trace (example_state [example_account]) @ [EvProbe])
       (token_id example_account) ?d False = Raised ''connection lost''"
    by (simp_all add: world_cache_down_def example_world_def example_account_def)
  note full = reset_zeroes_enabled_live_counts[where w = example_world and s = ?s]
  note eq = full[THEN conjunct1]
    and cm = full[THEN conjunct2, THEN conjunct2, THEN conjunct1]
    and crisp = full[THEN conjunct2, THEN conjunct2, THEN conjunct2, THEN conjunct2,
                     THEN conjunct2, THEN conjunct1]
  have a: "map count (store (reset_account_counts example_world ?s)) = [0, 5, 5, 0]"
    using crisp ids by (simp add: example_defs deleted_account_def)
  have b: "filter is_commit (trace (reset_account_counts example_world ?s)) = [EvCommit [1]]"
    using cm by (simp add: example_defs deleted_account_def)
  have c: "filter is_cache_op (trace (reset_account_counts example_world ?s))
       = [EvCachePut 1 (JObj [(''id'', JInt 1), (''count'', JInt 0)]) False,
          EvCachePut 1 (JObj [(''id'', JInt 1), (''count'', JInt 0)]) True]"
    using eq
    by (simp add: example_defs deleted_account_def cache_put_handled_def cache_put_try_def
        commit_def emit_def logger_def Let_def)
  have d: "cache_put_handled world_cache_offline example_account (example_state [example_account])
       = emit EvProbe (example_state [example_account])"
    using reset_zeroes_enabled_live_counts[where w = world_cache_offline
        and s0 = "example_state [example_account]" and b = example_account] off
    by blast
  have e: "cache_put_handled world_cache_down example_account (example_state [example_account])
       = logger ERROR (CacheUpdateFailed ''connection lost'')
           (emit (EvCachePut (token_id example_account) ?d False)
              (emit EvProbe (example_state [example_account])))"
    using reset_zeroes_enabled_live_counts[where w = world_cache_down
        and s0 = "example_state [example_account]" and b = example_account
        and d = ?d and e = "''connection lost''"] down
    by blast
  have f: "reset_account_counts world_cache_offline (example_state [example_account])
       = \<lparr>store = [example_account\<lparr>count := 0\<rparr>],
          trace = [EvLog INFO ResetStart, EvSessionOpen, EvQuery EnabledLive, EvProbe,
                   EvCommit [1], EvLog INFO (ResetDone 1), EvSessionClose],
          running = False, jobs = []\<rparr>"
    using reset_zeroes_enabled_live_counts[where w = world_cache_offline
        and s = "example_state [example_account]", THEN conjunct1]
    by (simp add: example_defs world_cache_offline_def cache_put_handled_def cache_put_try_def
        commit_def emit_def logger_def write_back_def Let_def)
  show ?thesis using a b c d e f by (simp add: example_account_def)
qed

end
